theory Spec2Isabelle
  imports Complex_Main "HOL-Library.AList"
begin

section \<open>Python strings\<close>

text \<open>
  A Python \<open>str\<close> is modelled as a \<open>string\<close>; a \<open>char\<close> stands for the code point
  of the same number (0 to 255).  The character classes below are the ones CPython uses
  for \<open>str.strip\<close>, \<open>str.isspace\<close> and the \<open>re\<close> classes \<open>\s\<close>, \<open>\d\<close>, \<open>\w\<close> on
  that range.
\<close>

definition py_isspace :: "char \<Rightarrow> bool" where
  "py_isspace c =
     (let n = (of_char c :: nat)
      in (9 \<le> n \<and> n \<le> 13) \<or> (28 \<le> n \<and> n \<le> 32) \<or> n = 133 \<or> n = 160)"

definition py_isdigit :: "char \<Rightarrow> bool" where
  "py_isdigit c = (let n = (of_char c :: nat) in 48 \<le> n \<and> n \<le> 57)"

definition py_isword :: "char \<Rightarrow> bool" where
  "py_isword c =
     (let n = (of_char c :: nat)
      in (48 \<le> n \<and> n \<le> 57) \<or> (65 \<le> n \<and> n \<le> 90) \<or> n = 95 \<or> (97 \<le> n \<and> n \<le> 122)
         \<or> n = 170 \<or> n = 178 \<or> n = 179 \<or> n = 181 \<or> n = 185 \<or> n = 186
         \<or> (188 \<le> n \<and> n \<le> 190) \<or> (192 \<le> n \<and> n \<le> 214)
         \<or> (216 \<le> n \<and> n \<le> 246) \<or> 248 \<le> n)"

text \<open>
  \<open>str.lower\<close> on one character, and the ASCII part of \<open>str.upper\<close>.  The only use of
  \<open>upper\<close> in the program is \<open>sql.strip().upper().startswith('SELECT')\<close>; no character
  outside \<open>a\<close> to \<open>z\<close> upper-cases to a letter of \<open>SELECT\<close> except the sharp s, which
  becomes \<open>SS\<close> and so never yields a prefix \<open>SELECT\<close>.
\<close>

definition py_lower :: "char \<Rightarrow> char" where
  "py_lower c =
     (let n = (of_char c :: nat)
      in if (65 \<le> n \<and> n \<le> 90) \<or> (192 \<le> n \<and> n \<le> 214) \<or> (216 \<le> n \<and> n \<le> 222) then char_of (n + 32) else c)"

definition ascii_upper :: "char \<Rightarrow> char" where
  "ascii_upper c =
     (let n = (of_char c :: nat) in if 97 \<le> n \<and> n \<le> 122 then char_of (n - 32) else c)"

text \<open>\<open>s.strip()\<close>\<close>

definition py_strip :: "string \<Rightarrow> string" where
  "py_strip s = rev (dropWhile py_isspace (rev (dropWhile py_isspace s)))"

text \<open>\<open>s.startswith(p)\<close>, \<open>s.endswith(p)\<close>, \<open>sub in s\<close>, \<open>sep.join(xs)\<close>\<close>

definition startswith :: "string \<Rightarrow> string \<Rightarrow> bool" where
  "startswith s p = (take (length p) s = p)"

definition endswith :: "string \<Rightarrow> string \<Rightarrow> bool" where
  "endswith s p = (length p \<le> length s \<and> drop (length s - length p) s = p)"

fun py_in :: "string \<Rightarrow> string \<Rightarrow> bool" where
  "py_in sub [] = (sub = [])"
| "py_in sub (c # cs) = (take (length sub) (c # cs) = sub \<or> py_in sub cs)"

fun py_join :: "string \<Rightarrow> string list \<Rightarrow> string" where
  "py_join sep [] = []"
| "py_join sep [x] = x"
| "py_join sep (x # y # ys) = x @ sep @ py_join sep (y # ys)"

text \<open>\<open>str(n)\<close> for a non-negative integer.\<close>

definition digit_char :: "nat \<Rightarrow> char" where
  "digit_char d = char_of (48 + d)"

fun show_nat_fuel :: "nat \<Rightarrow> nat \<Rightarrow> string" where
  "show_nat_fuel 0 n = [digit_char (n mod 10)]"
| "show_nat_fuel (Suc k) n =
     (if n < 10 then [digit_char n] else show_nat_fuel k (n div 10) @ [digit_char (n mod 10)])"

definition show_nat :: "nat \<Rightarrow> string" where
  "show_nat n = show_nat_fuel n n"

section \<open>The date pattern of the planner\<close>

text \<open>
  \<open>re.findall(date_pattern, content, re.IGNORECASE)\<close> with
  \<^verbatim>\<open>date_pattern = r'\b(January|...|December)\s+\d{4}\b'\<close>.
  The pattern has one group, so \<open>findall\<close> returns the text of that group (the month
  name as it is written in the content) for each match, left to right, matches not
  overlapping.
\<close>

definition months :: "string list" where
  "months = [''january'', ''february'', ''march'', ''april'', ''may'', ''june'', ''july'',
             ''august'', ''september'', ''october'', ''november'', ''december'']"

text \<open>
  The month that matches at the head of \<open>s\<close>, ignoring case (no month name is a prefix of
  another one, and the longest has nine letters).
\<close>

definition match_month :: "string \<Rightarrow> string option" where
  "match_month s =
     (let low = map py_lower (take 9 s) in find (\<lambda>m. take (length m) low = m) months)"

text \<open>
  A match that starts at the head of \<open>s\<close>: the month, one or more spaces, four
  digits, and a word boundary behind them.  Returns the group and the length of the match.
\<close>

definition match_date_at :: "string \<Rightarrow> (string \<times> nat) option" where
  "match_date_at s =
     (case match_month s of
        None \<Rightarrow> None
      | Some m \<Rightarrow>
          (let n = length m;
               rest = drop n s;
               ws = takeWhile py_isspace rest;
               rest2 = dropWhile py_isspace rest;
               ds = take 4 rest2
           in if ws \<noteq> [] \<and> length ds = 4 \<and> list_all py_isdigit ds
                 \<and> (case drop 4 rest2 of [] \<Rightarrow> True | c # _ \<Rightarrow> \<not> py_isword c)
              then Some (take n s, n + length ws + 4)
              else None))"

text \<open>
  The scan: \<open>prev\<close> is the character before the current position (for the leading
  \<open>\b\<close>), \<open>skip\<close> counts the characters of the last match still to be passed.
\<close>

fun scan_dates :: "char option \<Rightarrow> nat \<Rightarrow> string \<Rightarrow> string list" where
  "scan_dates prev skip [] = []"
| "scan_dates prev skip (c # cs) =
     (if 0 < skip then scan_dates (Some c) (skip - 1) cs
      else if (case prev of None \<Rightarrow> True | Some p \<Rightarrow> \<not> py_isword p)
      then (case match_date_at (c # cs) of
              Some (g, n) \<Rightarrow> g # scan_dates (Some c) (n - 1) cs
            | None \<Rightarrow> scan_dates (Some c) 0 cs)
      else scan_dates (Some c) 0 cs)"

definition findall_dates :: "string \<Rightarrow> string list" where
  "findall_dates content = scan_dates None 0 content"

section \<open>Cleaning the generated query\<close>

text \<open>
  The clean-up of \<open>nl2sql_node\<close>:
  \<^verbatim>\<open>
  sql = sql.strip()
  if sql.startswith("```sql"): sql = sql[6:]
  if sql.startswith("```"):    sql = sql[3:]
  if sql.endswith("```"):      sql = sql[:-3]
  sql = sql.strip()
  \<close>
\<close>

definition fence :: string where
  "fence = ''```''"

definition clean_sql :: "string \<Rightarrow> string" where
  "clean_sql raw =
     (let s0 = py_strip raw;
          s1 = (if startswith s0 (fence @ ''sql'') then drop 6 s0 else s0);
          s2 = (if startswith s1 fence then drop 3 s1 else s1);
          s3 = (if endswith s2 fence then take (length s2 - 3) s2 else s2)
      in py_strip s3)"

section \<open>Data model\<close>

text \<open>
  Python floats: the reals they denote, the two infinities and NaN.  Comparisons with NaN
  are false, \<open>min(a, b)\<close> is \<open>b if b < a else a\<close> and \<open>max(a, b)\<close> is
  \<open>b if b > a else a\<close>.
\<close>

datatype pyfloat = Fin real | PosInf | NegInf | NaN

fun pf_less :: "pyfloat \<Rightarrow> pyfloat \<Rightarrow> bool" where
  "pf_less (Fin x) (Fin y) = (x < y)"
| "pf_less (Fin x) PosInf = True"
| "pf_less NegInf (Fin y) = True"
| "pf_less NegInf PosInf = True"
| "pf_less _ _ = False"

definition py_min :: "pyfloat \<Rightarrow> pyfloat \<Rightarrow> pyfloat" where
  "py_min a b = (if pf_less b a then b else a)"

definition py_max :: "pyfloat \<Rightarrow> pyfloat \<Rightarrow> pyfloat" where
  "py_max a b = (if pf_less a b then b else a)"

text \<open>A float that lies in the interval from 0 to 1.\<close>

fun in_unit :: "pyfloat \<Rightarrow> bool" where
  "in_unit (Fin x) = (0 \<le> x \<and> x \<le> 1)"
| "in_unit _ = False"

text \<open>The \<open>DocChunk\<close> of the retriever, as the dictionary \<open>retriever_node\<close> stores.\<close>

record doc_chunk =
  chunk_id :: string
  source :: string
  content :: string
  score :: real

text \<open>
  The dictionary \<open>execute_sql\<close> returns.  A row is a dictionary from column name to
  cell, kept as an association list in insertion order.  The type \<open>'v\<close> stands for the
  Python objects that come from outside (cells of the database, fields of a prediction).
\<close>

record 'v exec_result =
  res_columns :: "string list"
  res_rows :: "(string \<times> 'v) list list"
  res_error :: "string option"

text \<open>One record per node invocation, with the fields of the node's \<open>trace_entry\<close>.\<close>

datatype trace_entry =
    TRouter string string
  | TRetriever nat "string list"
  | TPlanner string
  | TNl2sql string nat
  | TExecutor bool nat "string option"
  | TSynthesizer pyfloat nat
  | TValidate "string list" bool nat

text \<open>
  \<open>AgentState\<close>.  The field \<open>sql_result\<close> is \<open>None\<close> for the empty dictionary \<open>{}\<close> of
  the initial state and \<open>Some r\<close> once the executor has stored a result.
\<close>

record 'v agent_state =
  qid :: string
  question :: string
  format_hint :: string
  mode :: string
  retrieved_chunks :: "doc_chunk list"
  constraints :: string
  sql :: string
  sql_result :: "'v exec_result option"
  attempts :: nat
  final_answer :: 'v
  citations :: "string list"
  confidence :: pyfloat
  explanation :: 'v
  done_flag :: bool
  trace :: "trace_entry list"

text \<open>The fields of the prediction the synthesis signature returns.\<close>

record 'v synth_raw =
  raw_final_answer :: 'v
  raw_citations :: 'v
  raw_confidence :: 'v
  raw_explanation :: 'v

text \<open>What \<open>cursor.execute\<close> leaves in the cursor: \<open>description\<close> and the rows of \<open>fetchall\<close>.\<close>

record 'v cursor =
  description :: "string list option"
  fetched :: "'v list list"

text \<open>What a run can raise: the graph library's recursion error, or an exception of a node.\<close>

datatype error = GraphRecursionError | NodeError string

text \<open>
  The collaborators that are not code of the repository: the three \<open>dspy.Predict\<close>
  calls, the retriever's index, the \<open>sqlite3\<close> connection, and the built-ins \<open>float\<close>,
  \<open>str\<close>, \<open>isinstance(_, str)\<close> and \<open>json.dumps\<close> on outside objects (\<open>dumps_rows\<close>
  returns \<open>Inl\<close> with the message when \<open>json.dumps\<close> raises; \<open>str_obj s\<close> is the \<open>str\<close>
  object with text \<open>s\<close>; \<open>str_of_error e\<close> is \<open>str(e)\<close>).  The type \<open>'w\<close> is
  the state of the outside world (the model's randomness, the database); every call
  that can depend on it or change it takes it and returns it.  An exception of the
  database is its message, \<open>str(e)\<close>.
\<close>

record ('w, 'v) env =
  predict_mode :: "'w \<Rightarrow> string \<Rightarrow> string \<times> 'w"
  predict_sql :: "'w \<Rightarrow> string \<Rightarrow> string \<Rightarrow> string \<Rightarrow> string \<times> 'w"
  predict_synth :: "'w \<Rightarrow> string \<Rightarrow> string \<Rightarrow> string \<Rightarrow> string \<Rightarrow> string \<Rightarrow> 'v synth_raw \<times> 'w"
  rag_retrieve :: "'w \<Rightarrow> string \<Rightarrow> nat \<Rightarrow> doc_chunk list \<times> 'w"
  get_schema_summary :: "'w \<Rightarrow> string \<times> 'w"
  cursor_execute :: "'w \<Rightarrow> string \<Rightarrow> (string + 'v cursor) \<times> 'w"
  conn_commit :: "'w \<Rightarrow> string option \<times> 'w"
  as_str :: "'v \<Rightarrow> string option"
  py_float :: "'v \<Rightarrow> pyfloat option"
  py_str :: "'v \<Rightarrow> string"
  float_of_str :: "string \<Rightarrow> pyfloat option"
  json_dumps_ok :: "'v \<Rightarrow> bool"
  dumps_rows :: "(string \<times> 'v) list list \<Rightarrow> string + string"
  str_obj :: "string \<Rightarrow> 'v"
  str_of_error :: "error \<Rightarrow> string"

datatype node =
  Router | Retriever | Planner | Nl2sql | Executor | Synthesizer | Validate | END

section \<open>The model-backed modules (\<open>dspy_signatures.py\<close>)\<close>

fun split_on :: "char \<Rightarrow> string \<Rightarrow> string list" where
  "split_on d [] = [[]]"
| "split_on d (c # cs) =
     (let r = split_on d cs in if c = d then [] # r else (c # hd r) # tl r)"

definition valid_modes :: "string list" where
  "valid_modes = [''rag'', ''sql'', ''hybrid'']"

text \<open>\<open>Router.forward\<close>\<close>

definition Router_forward :: "('w, 'v) env \<Rightarrow> 'w \<Rightarrow> string \<Rightarrow> string \<times> 'w" where
  "Router_forward env w q =
     (case predict_mode env w q of
        (m, w') \<Rightarrow>
          (let mode = py_strip (map py_lower m)
           in (if mode \<in> set valid_modes then mode else ''hybrid'', w')))"

text \<open>\<open>NL2SQL.forward\<close>\<close>

definition NL2SQL_forward ::
  "('w, 'v) env \<Rightarrow> 'w \<Rightarrow> string \<Rightarrow> string \<Rightarrow> string \<Rightarrow> string \<times> 'w" where
  "NL2SQL_forward env w q cs schema =
     (case predict_sql env w q cs schema of (s, w') \<Rightarrow> (py_strip s, w'))"

text \<open>
  \<open>Synthesizer.forward\<close>: the citations are the comma-separated pieces that contain
  \<open>::\<close>, stripped; the confidence is \<open>max(0.0, min(1.0, float(c)))\<close>, or 0.5 when
  \<open>float\<close> raises.
\<close>

definition parse_citations :: "('w, 'v) env \<Rightarrow> 'v \<Rightarrow> string list" where
  "parse_citations env c =
     (case as_str env c of
        Some s \<Rightarrow> map py_strip (filter (py_in ''::'') (split_on (CHR '','') s))
      | None \<Rightarrow> [])"

definition parse_confidence :: "('w, 'v) env \<Rightarrow> 'v \<Rightarrow> pyfloat" where
  "parse_confidence env c =
     (case py_float env c of
        Some f \<Rightarrow> py_max (Fin 0) (py_min (Fin 1) f)
      | None \<Rightarrow> Fin 0.5)"

record 'v synth_out =
  out_final_answer :: 'v
  out_citations :: "string list"
  out_confidence :: pyfloat
  out_explanation :: 'v

definition Synthesizer_forward ::
  "('w, 'v) env \<Rightarrow> 'w \<Rightarrow> string \<Rightarrow> string \<Rightarrow> string \<Rightarrow> string \<Rightarrow> string \<Rightarrow> 'v synth_out \<times> 'w"
  where
  "Synthesizer_forward env w q fh docs rows_text sql_text =
     (case predict_synth env w q fh docs rows_text sql_text of
        (r, w') \<Rightarrow>
          (\<lparr>out_final_answer = raw_final_answer r,
            out_citations = parse_citations env (raw_citations r),
            out_confidence = parse_confidence env (raw_confidence r),
            out_explanation = raw_explanation r\<rparr>, w'))"

section \<open>The query executor (\<open>sqlite_tool.py\<close>)\<close>

definition starts_with_select :: "string \<Rightarrow> bool" where
  "starts_with_select q = (map ascii_upper (take 6 (py_strip q)) = ''SELECT'')"

definition fault :: "string \<Rightarrow> 'v exec_result" where
  "fault msg = \<lparr>res_columns = [], res_rows = [], res_error = Some msg\<rparr>"

definition no_rows :: "'v exec_result" where
  "no_rows = \<lparr>res_columns = [], res_rows = [], res_error = None\<rparr>"

text \<open>
  \<open>row_dict[col] = row[idx]\<close> for each column in turn: a repeated column name keeps its
  first place and takes the later cell.
\<close>

definition row_dict :: "string list \<Rightarrow> 'v list \<Rightarrow> (string \<times> 'v) list" where
  "row_dict cols row = fold (\<lambda>(col, v) d. AList.update col v d) (zip cols row) []"

text \<open>The messages of the two exceptions the loop itself can raise.\<close>

definition none_not_iterable :: string where
  "none_not_iterable = [CHR 0x27] @ ''NoneType'' @ [CHR 0x27] @ '' object is not iterable''"

definition index_out_of_range :: string where
  "index_out_of_range = ''tuple index out of range''"

text \<open>
  \<open>SQLiteTool.execute_sql\<close>.  Every statement of the body is inside \<open>try\<close>, and
  \<open>except Exception as e\<close> returns the fault dictionary with \<open>str(e)\<close>.
\<close>

definition execute_sql :: "('w, 'v) env \<Rightarrow> 'w \<Rightarrow> string \<Rightarrow> 'v exec_result \<times> 'w" where
  "execute_sql env w q =
     (case cursor_execute env w q of
        (Inl msg, w1) \<Rightarrow> (fault msg, w1)
      | (Inr cur, w1) \<Rightarrow>
          if starts_with_select q then
            (case description cur of
               None \<Rightarrow> (fault none_not_iterable, w1)
             | Some cols \<Rightarrow>
                 if list_ex (\<lambda>row. length row < length cols) (fetched cur)
                 then (fault index_out_of_range, w1)
                 else (\<lparr>res_columns = cols,
                        res_rows = map (row_dict cols) (fetched cur),
                        res_error = None\<rparr>, w1))
          else
            (case conn_commit env w1 of
               (Some msg, w2) \<Rightarrow> (fault msg, w2)
             | (None, w2) \<Rightarrow> (no_rows, w2)))"

section \<open>The nodes of the graph (\<open>graph_hybrid.py\<close>)\<close>

text \<open>
  A node returns a dictionary of updates, which the graph writes into the state; the
  \<open>trace\<close> channel appends.  Here a node takes the world and the state and returns both,
  updated.
\<close>

text \<open>\<open>sql_result.get("error")\<close>, \<open>sql_result.get("rows")\<close> and Python truthiness.\<close>

definition get_error :: "'v exec_result option \<Rightarrow> string option" where
  "get_error r = (case r of None \<Rightarrow> None | Some x \<Rightarrow> res_error x)"

definition get_rows :: "'v exec_result option \<Rightarrow> (string \<times> 'v) list list" where
  "get_rows r = (case r of None \<Rightarrow> [] | Some x \<Rightarrow> res_rows x)"

definition truthy :: "string option \<Rightarrow> bool" where
  "truthy e = (case e of None \<Rightarrow> False | Some s \<Rightarrow> s \<noteq> [])"

definition error_text :: "string option \<Rightarrow> string" where
  "error_text e = (case e of None \<Rightarrow> [] | Some s \<Rightarrow> s)"

definition router_node :: "('w, 'v) env \<Rightarrow> 'w \<Rightarrow> 'v agent_state \<Rightarrow> 'w \<times> 'v agent_state" where
  "router_node env w st =
     (case Router_forward env w (question st) of
        (m, w') \<Rightarrow>
          (w', st\<lparr>mode := m,
                  trace := trace st @ [TRouter m (take 100 (question st))]\<rparr>))"

definition retriever_node :: "('w, 'v) env \<Rightarrow> 'w \<Rightarrow> 'v agent_state \<Rightarrow> 'w \<times> 'v agent_state" where
  "retriever_node env w st =
     (case rag_retrieve env w (question st) 4 of
        (chunks, w') \<Rightarrow>
          (w', st\<lparr>retrieved_chunks := chunks,
                  trace := trace st @ [TRetriever (length chunks) (map chunk_id chunks)]\<rparr>))"

text \<open>The fragments one chunk adds to \<open>constraints_parts\<close> (the body of the loop).\<close>

definition chunk_parts :: "doc_chunk \<Rightarrow> string list" where
  "chunk_parts c =
     (let dates = findall_dates (content c)
      in (if dates \<noteq> [] then [''Relevant dates: '' @ py_join '', '' dates] else [])
         @ (if py_in ''Formula:'' (content c) \<or> py_in ''SELECT'' (content c)
            then [''KPI formula found in '' @ source c] else []))"

definition extract_constraints :: "doc_chunk list \<Rightarrow> string" where
  "extract_constraints chunks =
     (let constraints_parts = concat (map chunk_parts chunks)
      in if constraints_parts \<noteq> [] then py_join ''; '' constraints_parts
         else ''No specific constraints'')"

definition planner_node :: "('w, 'v) env \<Rightarrow> 'w \<Rightarrow> 'v agent_state \<Rightarrow> 'w \<times> 'v agent_state" where
  "planner_node env w st =
     (let cs = extract_constraints (retrieved_chunks st)
      in (w, st\<lparr>constraints := cs, trace := trace st @ [TPlanner cs]\<rparr>))"

text \<open>
  The constraints \<open>nl2sql_node\<close> passes to the transform: on a repair attempt the local
  copy is extended; \<open>prev_error\<close> is \<open>state.get("sql_result", {}).get("error", "")\<close>,
  which an f-string prints as \<open>None\<close> when the key holds \<open>None\<close>.
\<close>

definition prev_error_text :: "'v exec_result option \<Rightarrow> string" where
  "prev_error_text r =
     (case r of
        None \<Rightarrow> []
      | Some x \<Rightarrow> (case res_error x of None \<Rightarrow> ''None'' | Some e \<Rightarrow> e))"

definition nl2sql_constraints :: "'v agent_state \<Rightarrow> string" where
  "nl2sql_constraints st =
     (if 0 < attempts st
      then constraints st @ '' Previous SQL failed with: '' @ prev_error_text (sql_result st)
             @ ''. Please fix the SQL.''
      else constraints st)"

definition nl2sql_node :: "('w, 'v) env \<Rightarrow> 'w \<Rightarrow> 'v agent_state \<Rightarrow> 'w \<times> 'v agent_state" where
  "nl2sql_node env w st =
     (case get_schema_summary env w of
        (schema, w1) \<Rightarrow>
          (case NL2SQL_forward env w1 (question st) (nl2sql_constraints st) schema of
             (raw, w2) \<Rightarrow>
               (let q = clean_sql raw
                in (w2, st\<lparr>sql := q,
                           trace := trace st @ [TNl2sql q (attempts st + 1)]\<rparr>))))"

definition executor_node :: "('w, 'v) env \<Rightarrow> 'w \<Rightarrow> 'v agent_state \<Rightarrow> 'w \<times> 'v agent_state" where
  "executor_node env w st =
     (case execute_sql env w (sql st) of
        (result, w') \<Rightarrow>
          (w', st\<lparr>sql_result := Some result,
                  attempts := attempts st + 1,
                  trace := trace st @ [TExecutor (res_error result = None)
                                         (length (res_rows result)) (res_error result)]\<rparr>))"

definition render_docs :: "doc_chunk list \<Rightarrow> string" where
  "render_docs chunks =
     (if chunks \<noteq> []
      then py_join [CHR 0x0A, CHR 0x0A]
             (map (\<lambda>c. ''['' @ chunk_id c @ ''] '' @ take 200 (content c) @ ''...'') chunks)
      else ''No documents retrieved'')"

text \<open>
  The text of the query results; \<open>json.dumps\<close> of the first five rows can raise, and
  nothing in the node catches it.
\<close>

definition render_rows :: "('w, 'v) env \<Rightarrow> 'v exec_result option \<Rightarrow> string + string" where
  "render_rows env r =
     (if truthy (get_error r) then Inr (''SQL Error: '' @ error_text (get_error r))
      else if get_rows r \<noteq> [] then dumps_rows env (take 5 (get_rows r))
      else Inr ''No SQL results'')"

definition synthesizer_node ::
  "('w, 'v) env \<Rightarrow> 'w \<Rightarrow> 'v agent_state \<Rightarrow> error + ('w \<times> 'v agent_state)" where
  "synthesizer_node env w st =
     (case render_rows env (sql_result st) of
        Inl msg \<Rightarrow> Inl (NodeError msg)
      | Inr sql_rows \<Rightarrow>
          (case Synthesizer_forward env w (question st) (format_hint st)
                  (render_docs (retrieved_chunks st)) sql_rows (sql st) of
             (result, w') \<Rightarrow>
               Inr (w', st\<lparr>final_answer := out_final_answer result,
                           citations := out_citations result,
                           confidence := out_confidence result,
                           explanation := out_explanation result,
                           trace := trace st @ [TSynthesizer (out_confidence result)
                                                  (length (out_citations result))]\<rparr>)))"

text \<open>
  The local list \<open>issues\<close> of \<open>validate_and_repair_node\<close>.  Each \<open>try\<close> has a bare
  \<open>except\<close>, so a failing \<open>float\<close> or \<open>json.dumps\<close> only adds an issue.
\<close>

definition validation_issues :: "('w, 'v) env \<Rightarrow> 'v agent_state \<Rightarrow> string list" where
  "validation_issues env st =
     (if format_hint st = ''number''
      then (case float_of_str env
                   (filter (\<lambda>c. c \<noteq> CHR ''$'' \<and> c \<noteq> CHR '','') (py_str env (final_answer st))) of
              None \<Rightarrow> [''Answer should be a number'']
            | Some _ \<Rightarrow> [])
      else [])
     @ (if json_dumps_ok env (final_answer st) then [] else [''Answer is not JSON serializable''])
     @ (if mode st \<in> set [''rag'', ''hybrid''] \<and> citations st = []
        then [''Missing citations''] else [])
     @ (if mode st \<in> set [''sql'', ''hybrid'']
        then (if truthy (get_error (sql_result st))
              then [''SQL error: '' @ error_text (get_error (sql_result st))]
              else if get_rows (sql_result st) = [] then [''SQL returned no rows'']
              else [])
        else [])"

definition validate_and_repair_node ::
  "('w, 'v) env \<Rightarrow> 'w \<Rightarrow> 'v agent_state \<Rightarrow> 'w \<times> 'v agent_state" where
  "validate_and_repair_node env w st =
     (let issues = validation_issues env st;
          d = (length issues = 0 \<or> 2 \<le> attempts st)
      in (w, st\<lparr>done_flag := d,
                 trace := trace st @ [TValidate issues d (attempts st)]\<rparr>))"

subsection \<open>The conditional edges\<close>

definition route_after_router :: "'v agent_state \<Rightarrow> node" where
  "route_after_router st = (if mode st \<in> set [''rag'', ''hybrid''] then Retriever else Planner)"

definition route_after_planner :: "'v agent_state \<Rightarrow> node" where
  "route_after_planner st = (if mode st \<in> set [''sql'', ''hybrid''] then Nl2sql else Synthesizer)"

definition route_after_validation :: "'v agent_state \<Rightarrow> node" where
  "route_after_validation st =
     (if done_flag st then END
      else if 2 \<le> attempts st then END
      else if truthy (get_error (sql_result st)) then Nl2sql
      else Synthesizer)"

subsection \<open>Running the graph\<close>

text \<open>
  One node invocation followed by the edge that leaves the node (\<open>_build_graph\<close>).
\<close>

definition step ::
  "('w, 'v) env \<Rightarrow> node \<Rightarrow> 'w \<Rightarrow> 'v agent_state \<Rightarrow> error + (node \<times> 'w \<times> 'v agent_state)" where
  "step env n w st =
     (case n of
        Router \<Rightarrow> (case router_node env w st of (w', st') \<Rightarrow> Inr (route_after_router st', w', st'))
      | Retriever \<Rightarrow> (case retriever_node env w st of (w', st') \<Rightarrow> Inr (Planner, w', st'))
      | Planner \<Rightarrow> (case planner_node env w st of (w', st') \<Rightarrow> Inr (route_after_planner st', w', st'))
      | Nl2sql \<Rightarrow> (case nl2sql_node env w st of (w', st') \<Rightarrow> Inr (Executor, w', st'))
      | Executor \<Rightarrow> (case executor_node env w st of (w', st') \<Rightarrow> Inr (Synthesizer, w', st'))
      | Synthesizer \<Rightarrow>
          (case synthesizer_node env w st of
             Inl e \<Rightarrow> Inl e
           | Inr (w', st') \<Rightarrow> Inr (Validate, w', st'))
      | Validate \<Rightarrow>
          (case validate_and_repair_node env w st of
             (w', st') \<Rightarrow> Inr (route_after_validation st', w', st'))
      | END \<Rightarrow> Inr (END, w, st))"

text \<open>
  \<open>self.graph.invoke\<close>: nodes run one after the other until the edge leads to \<open>END\<close>.
  The graph library allows a bounded number of node invocations per run (its recursion
  limit, 25 unless configured) and raises \<open>GraphRecursionError\<close> beyond it; \<open>limit\<close> is
  that bound.  The world is returned also when the run raises.
\<close>

fun invoke_from ::
  "('w, 'v) env \<Rightarrow> nat \<Rightarrow> node \<Rightarrow> 'w \<Rightarrow> 'v agent_state \<Rightarrow> (error + 'v agent_state) \<times> 'w" where
  "invoke_from env 0 n w st = (if n = END then (Inr st, w) else (Inl GraphRecursionError, w))"
| "invoke_from env (Suc k) n w st =
     (if n = END then (Inr st, w)
      else (case step env n w st of
              Inl e \<Rightarrow> (Inl e, w)
            | Inr (n', w', st') \<Rightarrow> invoke_from env k n' w' st'))"

text \<open>The position of the run after \<open>k\<close> node invocations, when none of them raised.\<close>

fun steps ::
  "('w, 'v) env \<Rightarrow> nat \<Rightarrow> node \<Rightarrow> 'w \<Rightarrow> 'v agent_state \<Rightarrow> (node \<times> 'w \<times> 'v agent_state) option" where
  "steps env 0 n w st = Some (n, w, st)"
| "steps env (Suc k) n w st =
     (case step env n w st of
        Inl e \<Rightarrow> None
      | Inr (n', w', st') \<Rightarrow> steps env k n' w' st')"

definition initial_state :: "('w, 'v) env \<Rightarrow> string \<Rightarrow> string \<Rightarrow> string \<Rightarrow> 'v agent_state" where
  "initial_state env question_id q fh =
     \<lparr>qid = question_id, question = q, format_hint = fh, mode = [],
      retrieved_chunks = [], constraints = [], sql = [], sql_result = None, attempts = 0,
      final_answer = str_obj env [], citations = [], confidence = Fin 0,
      explanation = str_obj env [], done_flag = False, trace = []\<rparr>"

record 'v result =
  r_id :: string
  r_question :: string
  r_final_answer :: 'v
  r_citations :: "string list"
  r_confidence :: pyfloat
  r_explanation :: 'v
  r_trace :: "trace_entry list"

text \<open>\<open>HybridAgent.run\<close>\<close>

definition run ::
  "('w, 'v) env \<Rightarrow> nat \<Rightarrow> 'w \<Rightarrow> string \<Rightarrow> string \<Rightarrow> string \<Rightarrow> (error + 'v result) \<times> 'w" where
  "run env limit w question_id q fh =
     (case invoke_from env limit Router w (initial_state env question_id q fh) of
        (Inl e, w') \<Rightarrow> (Inl e, w')
      | (Inr final_state, w') \<Rightarrow>
          (Inr \<lparr>r_id = qid final_state, r_question = question final_state,
                r_final_answer = final_answer final_state,
                r_citations = citations final_state,
                r_confidence = confidence final_state,
                r_explanation = explanation final_state,
                r_trace = trace final_state\<rparr>, w'))"

section \<open>The batch driver (\<open>run_agent_hybrid.py\<close>)\<close>

text \<open>
  One record of the input file, after \<open>json.loads\<close>: an object whose fields, when
  present, are strings (the batch format); \<open>None\<close> is an absent key.
\<close>

record item =
  item_id :: "string option"
  item_question :: "string option"
  item_format_hint :: "string option"

text \<open>
  The body of the loop over \<open>enumerate(questions, 1)\<close>: the three \<open>item.get\<close> with their
  defaults, the run, and the record built when the run raises.
\<close>

definition process_item ::
  "('w, 'v) env \<Rightarrow> nat \<Rightarrow> nat \<Rightarrow> 'w \<Rightarrow> item \<Rightarrow> 'v result \<times> 'w" where
  "process_item env limit idx w it =
     (let question_id = (case item_id it of Some i \<Rightarrow> i | None \<Rightarrow> ''q'' @ show_nat idx);
          q = (case item_question it of Some s \<Rightarrow> s | None \<Rightarrow> []);
          fh = (case item_format_hint it of Some s \<Rightarrow> s | None \<Rightarrow> ''text'')
      in case run env limit w question_id q fh of
           (Inr res, w') \<Rightarrow> (res, w')
         | (Inl e, w') \<Rightarrow>
             (\<lparr>r_id = question_id, r_question = q,
               r_final_answer = str_obj env ''Error processing question'',
               r_citations = [], r_confidence = Fin 0,
               r_explanation = str_obj env (str_of_error env e),
               r_trace = []\<rparr>, w'))"

fun process_items ::
  "('w, 'v) env \<Rightarrow> nat \<Rightarrow> nat \<Rightarrow> 'w \<Rightarrow> item list \<Rightarrow> 'v result list \<times> 'w" where
  "process_items env limit idx w [] = ([], w)"
| "process_items env limit idx w (it # rest) =
     (case process_item env limit idx w it of
        (r, w1) \<Rightarrow>
          (case process_items env limit (idx + 1) w1 rest of
             (rs, w2) \<Rightarrow> (r # rs, w2)))"

text \<open>
  The final loop writes \<open>json.dumps(result)\<close> line by line; \<open>json.dumps\<close> raises on the
  first record that holds an object it cannot serialise, after the lines before it.
  The result is the lines written and whether the loop completed.
\<close>

definition serializable :: "('w, 'v) env \<Rightarrow> 'v result \<Rightarrow> bool" where
  "serializable env r = (json_dumps_ok env (r_final_answer r) \<and> json_dumps_ok env (r_explanation r))"

fun write_results :: "('w, 'v) env \<Rightarrow> 'v result list \<Rightarrow> 'v result list \<times> bool" where
  "write_results env [] = ([], True)"
| "write_results env (r # rs) =
     (if serializable env r
      then (case write_results env rs of (ls, ok) \<Rightarrow> (r # ls, ok))
      else ([], False))"

definition process_batch ::
  "('w, 'v) env \<Rightarrow> nat \<Rightarrow> 'w \<Rightarrow> item list \<Rightarrow> 'v result list \<times> bool" where
  "process_batch env limit w questions =
     write_results env (fst (process_items env limit 1 w questions))"

section \<open>A concrete environment\<close>

text \<open>
  A small instance of the collaborators, used to run the definitions on concrete inputs:
  outside objects are strings, integers or \<open>None\<close>; the world counts the calls of the
  model; the database answers a count, a query without rows, a query on a missing table, the
  \<open>PRAGMA\<close> statement that \<open>get_schema_summary\<close> itself issues, and a \<open>DELETE\<close>.
  \<open>toy_float\<close> agrees with Python's \<open>float\<close> on the strings it lists and stands for a
  \<open>ValueError\<close> on the others used below.
\<close>

datatype pyobj = PStr string | PInt int | PNone

definition toy_float :: "string \<Rightarrow> pyfloat option" where
  "toy_float s =
     (if s = ''1.5'' then Some (Fin 1.5)
      else if s = ''0.9'' then Some (Fin 0.9)
      else if s = ''-2'' then Some (Fin (- 2))
      else if s = ''42'' then Some (Fin 42)
      else if s = ''nan'' then Some NaN
      else None)"

definition toy_db :: "string \<Rightarrow> string + pyobj cursor" where
  "toy_db q =
     (if q = ''SELECT COUNT(*) FROM Products''
      then Inr \<lparr>description = Some [''COUNT(*)''], fetched = [[PInt 10]]\<rparr>
      else if q = ''SELECT 1 WHERE 0''
      then Inr \<lparr>description = Some [''1''], fetched = []\<rparr>
      else if q = ''SELECT * FROM Nope''
      then Inl ''no such table: Nope''
      else if q = ''PRAGMA table_info(Products)''
      then Inr \<lparr>description = Some [''cid'', ''name'', ''type'', ''notnull'', ''dflt_value'', ''pk''],
                fetched = [[PInt 0, PStr ''ProductID'', PStr ''INTEGER'', PInt 0, PNone, PInt 1]]\<rparr>
      else if q = ''DELETE FROM Products''
      then Inr \<lparr>description = None, fetched = []\<rparr>
      else Inl ''syntax error'')"

definition calendar_chunk :: doc_chunk where
  "calendar_chunk =
     \<lparr>chunk_id = ''marketing_calendar::chunk2'', source = ''marketing_calendar.md'',
      content = ''Sale: June 1997, july  1998'', score = 0.5\<rparr>"

definition kpi_chunk :: doc_chunk where
  "kpi_chunk =
     \<lparr>chunk_id = ''kpi_definitions::chunk1'', source = ''kpi_definitions.md'',
      content = ''Formula: a*b'', score = 0.25\<rparr>"

definition kpi_chunk_moved :: doc_chunk where
  "kpi_chunk_moved =
     \<lparr>chunk_id = ''kpi_definitions::chunk1'', source = ''catalog.md'',
      content = ''Formula: a*b'', score = 0.25\<rparr>"

definition plain_chunk :: doc_chunk where
  "plain_chunk =
     \<lparr>chunk_id = ''product_policy::chunk1'', source = ''product_policy.md'',
      content = ''No returns in May'', score = 0.125\<rparr>"

definition toy_docs :: "doc_chunk list" where
  "toy_docs = [calendar_chunk, kpi_chunk]"

text \<open>Query generators: what the model answers, given the world and the constraints.\<close>

definition gen_count :: "nat \<Rightarrow> string \<Rightarrow> string" where
  "gen_count w cs = ''SELECT COUNT(*) FROM Products''"

definition gen_empty :: "nat \<Rightarrow> string \<Rightarrow> string" where
  "gen_empty w cs = ''SELECT 1 WHERE 0''"

definition gen_bad :: "nat \<Rightarrow> string \<Rightarrow> string" where
  "gen_bad w cs = ''SELECT * FROM Nope''"

definition gen_echo :: "nat \<Rightarrow> string \<Rightarrow> string" where
  "gen_echo w cs = cs"

definition gen_fenced_upper :: "nat \<Rightarrow> string \<Rightarrow> string" where
  "gen_fenced_upper w cs = fence @ ''SQL'' @ [CHR 0x0A] @ ''SELECT 1'' @ [CHR 0x0A] @ fence"

definition toy_env ::
  "string \<Rightarrow> (nat \<Rightarrow> string \<Rightarrow> string) \<Rightarrow> pyobj \<Rightarrow> pyobj \<Rightarrow> (nat, pyobj) env" where
  "toy_env m gen cit conf =
     \<lparr>predict_mode = (\<lambda>w q. (m, Suc w)),
      predict_sql = (\<lambda>w q cs schema. (gen w cs, Suc w)),
      predict_synth = (\<lambda>w q fh docs rows_text sql_text.
         (\<lparr>raw_final_answer = PStr ''42'', raw_citations = cit,
           raw_confidence = conf, raw_explanation = PStr ''ok''\<rparr>, Suc w)),
      rag_retrieve = (\<lambda>w q k. (take k toy_docs, w)),
      get_schema_summary = (\<lambda>w. (''Table: Products'', w)),
      cursor_execute = (\<lambda>w q. (toy_db q, w)),
      conn_commit = (\<lambda>w. (None, w)),
      as_str = (\<lambda>v. case v of PStr s \<Rightarrow> Some s | _ \<Rightarrow> None),
      py_float = (\<lambda>v. case v of PStr s \<Rightarrow> toy_float s | PInt i \<Rightarrow> Some (Fin (of_int i)) | PNone \<Rightarrow> None),
      py_str = (\<lambda>v. case v of PStr s \<Rightarrow> s | PInt i \<Rightarrow> (if i < 0 then ''-'' else []) @ show_nat (nat (abs i))
                       | PNone \<Rightarrow> ''None''),
      float_of_str = toy_float,
      json_dumps_ok = (\<lambda>v. True),
      dumps_rows = (\<lambda>rows. Inr ''[...]''),
      str_obj = PStr,
      str_of_error = (\<lambda>e. case e of GraphRecursionError \<Rightarrow> ''Recursion limit reached''
                                  | NodeError msg \<Rightarrow> msg)\<rparr>"

definition env_sql :: "(nat, pyobj) env" where
  "env_sql = toy_env ''sql'' gen_count (PStr []) (PStr ''0.9'')"

definition env_rag :: "(nat, pyobj) env" where
  "env_rag = toy_env ''rag'' gen_count (PStr []) (PStr ''0.9'')"

definition env_rag_cited :: "(nat, pyobj) env" where
  "env_rag_cited = toy_env ''rag'' gen_count (PStr ''kpi_definitions::chunk1, n/a'') (PStr ''abc'')"

definition env_hybrid_bad :: "(nat, pyobj) env" where
  "env_hybrid_bad = toy_env ''hybrid'' gen_bad (PStr ''kpi_definitions::chunk1'') (PStr ''1.5'')"

text \<open>States on which the nodes are run below.\<close>

definition st_plain :: "pyobj agent_state" where
  "st_plain = (initial_state env_rag ''q2'' ''Return policy?'' ''text'')\<lparr>retrieved_chunks := [plain_chunk]\<rparr>"

definition st_docs :: "pyobj agent_state" where
  "st_docs = (initial_state env_rag ''q2'' ''Return policy?'' ''text'')\<lparr>retrieved_chunks := toy_docs\<rparr>"

definition st_docs_other :: "pyobj agent_state" where
  "st_docs_other =
     (initial_state env_sql ''q7'' ''Revenue in June?'' ''number'')
       \<lparr>retrieved_chunks := [calendar_chunk\<lparr>score := 0.75\<rparr>, kpi_chunk\<lparr>chunk_id := ''x::1''\<rparr>],
        attempts := 1\<rparr>"

section \<open>Evaluating the string functions\<close>

lemmas char_eval = char_of_eq_iff take_bit_eq_mod py_lower_def ascii_upper_def py_isword_def
  py_isspace_def py_isdigit_def

lemmas date_eval = findall_dates_def match_date_at_def match_month_def months_def

lemmas planner_eval = chunk_parts_def extract_constraints_def



definition gen_fenced_sql :: "nat \<Rightarrow> string \<Rightarrow> string" where
  "gen_fenced_sql w cs = fence @ ''sql'' @ [CHR 0x0A] @ ''SELECT 1'' @ [CHR 0x0A] @ fence"

definition env_fenced :: "(nat, pyobj) env" where
  "env_fenced = toy_env ''sql'' gen_fenced_sql (PStr []) (PStr ''0.9'')"

definition env_fenced_upper :: "(nat, pyobj) env" where
  "env_fenced_upper = toy_env ''sql'' gen_fenced_upper (PStr []) (PStr ''0.9'')"

definition st_q1 :: "pyobj agent_state" where
  "st_q1 = initial_state env_sql ''q1'' ''Total units?'' ''number''"

definition st_failed :: "pyobj agent_state" where
  "st_failed =
     st_q1\<lparr>mode := ''sql'', constraints := ''No specific constraints'',
            sql := ''SELECT * FROM Nope'',
            sql_result := Some (fault ''no such table: Nope''),
            attempts := 1, final_answer := PStr ''42''\<rparr>"

definition st_no_rows :: "pyobj agent_state" where
  "st_no_rows =
     st_q1\<lparr>mode := ''hybrid'', sql := ''SELECT 1 WHERE 0'',
            sql_result := Some \<lparr>res_columns = [''1''], res_rows = [], res_error = None\<rparr>,
            attempts := 1, final_answer := PStr ''42''\<rparr>"

definition st_synth :: "pyobj agent_state" where
  "st_synth =
     st_failed\<lparr>final_answer := PStr ''42'', citations := [''kpi_definitions::chunk1''],
                confidence := Fin 1, explanation := PStr ''ok'',
                trace := [TSynthesizer (Fin 1) 1]\<rparr>"

definition env_echo :: "(nat, pyobj) env" where
  "env_echo = toy_env ''sql'' gen_echo (PStr []) (PStr ''0.9'')"

definition repair_text :: string where
  "repair_text =
     ''No specific constraints Previous SQL failed with: no such table: Nope. Please fix the SQL.''"

definition st_repaired :: "pyobj agent_state" where
  "st_repaired = st_failed\<lparr>sql := repair_text, trace := [TNl2sql repair_text 2]\<rparr>"

definition st_rag_routed :: "pyobj agent_state" where
  "st_rag_routed = st_q1\<lparr>mode := ''rag'', trace := [TRouter ''rag'' ''Total units?'']\<rparr>"

definition st_rag_retrieved :: "pyobj agent_state" where
  "st_rag_retrieved =
     st_rag_routed\<lparr>retrieved_chunks := toy_docs,
       trace := [TRouter ''rag'' ''Total units?'',
                 TRetriever 2 [''marketing_calendar::chunk2'', ''kpi_definitions::chunk1'']]\<rparr>"

definition st_sql_routed :: "pyobj agent_state" where
  "st_sql_routed = st_q1\<lparr>mode := ''sql'', trace := [TRouter ''sql'' ''Total units?'']\<rparr>"

definition st_sql_planned :: "pyobj agent_state" where
  "st_sql_planned =
     st_sql_routed\<lparr>constraints := ''No specific constraints'',
       trace := [TRouter ''sql'' ''Total units?'', TPlanner ''No specific constraints'']\<rparr>"


section \<open>The planner\<close>

lemma chunk_parts_cong:
  "source c = source d \<Longrightarrow> content c = content d \<Longrightarrow> chunk_parts c = chunk_parts d"
  by (simp add: chunk_parts_def)

lemma map_chunk_parts_cong:
  "map (\<lambda>c. (source c, content c)) xs = map (\<lambda>c. (source c, content c)) ys
   \<Longrightarrow> map chunk_parts xs = map chunk_parts ys"
proof (induction xs arbitrary: ys)
  case Nil
  then show ?case by simp
next
  case (Cons x xs)
  then obtain y ys' where ys: "ys = y # ys'" by (cases ys) auto
  with Cons.prems have "source x = source y" "content x = content y"
    and rest: "map (\<lambda>c. (source c, content c)) xs = map (\<lambda>c. (source c, content c)) ys'"
    by auto
  then show ?case using Cons.IH [OF rest] ys by (simp add: chunk_parts_cong [of x y])
qed

lemma py_join_nonempty:
  "xs \<noteq> [] \<Longrightarrow> hd xs \<noteq> [] \<Longrightarrow> py_join sep xs \<noteq> []"
  by (induction sep xs rule: py_join.induct) auto

lemma chunk_parts_nonempty: "p \<in> set (chunk_parts c) \<Longrightarrow> p \<noteq> []"
  by (auto simp: chunk_parts_def Let_def split: if_splits)

lemma extract_constraints_nonempty: "extract_constraints chunks \<noteq> []"
proof (cases "concat (map chunk_parts chunks) = []")
  case True
  then show ?thesis by (simp add: extract_constraints_def)
next
  case False
  then have "hd (concat (map chunk_parts chunks)) \<in> set (concat (map chunk_parts chunks))"
    by (rule hd_in_set)
  then have "hd (concat (map chunk_parts chunks)) \<noteq> []"
    using chunk_parts_nonempty by auto
  with False show ?thesis
    by (simp add: extract_constraints_def py_join_nonempty)
qed

lemma planner_constraints_eq:
  "constraints (snd (planner_node env w st)) = extract_constraints (retrieved_chunks st)"
  by (simp add: planner_node_def Let_def)

lemma findall_plain: "findall_dates (content plain_chunk) = []"
  by (simp add: plain_chunk_def date_eval char_eval)

lemma findall_kpi: "findall_dates ''Formula: a*b'' = []"
  by (simp add: date_eval char_eval)

lemma findall_calendar: "findall_dates ''Sale: June 1997, july  1998'' = [''June'', ''july'']"
  by (simp add: date_eval char_eval)

lemma extract_kpi: "extract_constraints [kpi_chunk] = ''KPI formula found in kpi_definitions.md''"
  by (simp add: kpi_chunk_def planner_eval findall_kpi)

lemma extract_kpi_moved: "extract_constraints [kpi_chunk_moved] = ''KPI formula found in catalog.md''"
  by (simp add: kpi_chunk_moved_def planner_eval findall_kpi)

lemma extract_toy_docs:
  "extract_constraints toy_docs
     = ''Relevant dates: June, july; KPI formula found in kpi_definitions.md''"
  by (simp add: toy_docs_def calendar_chunk_def kpi_chunk_def planner_eval findall_kpi
      findall_calendar)

text \<open>
  C5, as stated, fails: with no hint the planner stores \<open>No specific constraints\<close> (capital
  N), not \<open>no specific constraints\<close>; and two passage lists with the same content but a
  different source give different constraints, so the result is not a function of the
  content alone.
\<close>

theorem planner_fallback_counterexample:
  "constraints (snd (planner_node env_sql 0 (initial_state env_sql ''q1'' ''Total units?'' ''number'')))
     \<noteq> ''no specific constraints''
   \<and> map content [kpi_chunk] = map content [kpi_chunk_moved]
   \<and> constraints (snd (planner_node env_sql 0
         ((initial_state env_sql ''q1'' ''Total units?'' ''number'')\<lparr>retrieved_chunks := [kpi_chunk]\<rparr>)))
     \<noteq> constraints (snd (planner_node env_sql 0
         ((initial_state env_sql ''q1'' ''Total units?'' ''number'')\<lparr>retrieved_chunks := [kpi_chunk_moved]\<rparr>)))"
proof (intro conjI)
  show "constraints (snd (planner_node env_sql 0 (initial_state env_sql ''q1'' ''Total units?'' ''number'')))
     \<noteq> ''no specific constraints''"
    by (simp add: planner_constraints_eq initial_state_def extract_constraints_def)
  show "map content [kpi_chunk] = map content [kpi_chunk_moved]"
    by (simp add: kpi_chunk_def kpi_chunk_moved_def)
  show "constraints (snd (planner_node env_sql 0
         ((initial_state env_sql ''q1'' ''Total units?'' ''number'')\<lparr>retrieved_chunks := [kpi_chunk]\<rparr>)))
     \<noteq> constraints (snd (planner_node env_sql 0
         ((initial_state env_sql ''q1'' ''Total units?'' ''number'')\<lparr>retrieved_chunks := [kpi_chunk_moved]\<rparr>)))"
    by (simp add: planner_constraints_eq extract_kpi extract_kpi_moved)
qed

text \<open>
  C5, amended: the constraints the planner stores are a function of the source and
  content fields of the retrieved passages only (not of the environment, the world or
  the rest of the state); when no passage holds a date or a formula marker they are
  exactly \<open>No specific constraints\<close>; otherwise they are the fragments joined with
  \<open>; \<close> in passage order; and they are never empty.
\<close>

theorem planner_constraints:
  "(map (\<lambda>c. (source c, content c)) (retrieved_chunks st)
      = map (\<lambda>c. (source c, content c)) (retrieved_chunks st')
    \<longrightarrow> constraints (snd (planner_node env w st)) = constraints (snd (planner_node env' w' st')))
   \<and> ((\<forall>c \<in> set (retrieved_chunks st).
          findall_dates (content c) = [] \<and> \<not> py_in ''Formula:'' (content c)
          \<and> \<not> py_in ''SELECT'' (content c))
        \<longrightarrow> constraints (snd (planner_node env w st)) = ''No specific constraints'')
   \<and> (concat (map chunk_parts (retrieved_chunks st)) \<noteq> []
        \<longrightarrow> constraints (snd (planner_node env w st))
            = py_join ''; '' (concat (map chunk_parts (retrieved_chunks st))))
   \<and> constraints (snd (planner_node env w st)) \<noteq> []"
proof (intro conjI impI)
  assume "map (\<lambda>c. (source c, content c)) (retrieved_chunks st)
      = map (\<lambda>c. (source c, content c)) (retrieved_chunks st')"
  then have "map chunk_parts (retrieved_chunks st) = map chunk_parts (retrieved_chunks st')"
    by (rule map_chunk_parts_cong)
  then show "constraints (snd (planner_node env w st)) = constraints (snd (planner_node env' w' st'))"
    by (simp add: planner_constraints_eq extract_constraints_def)
next
  assume h: "\<forall>c \<in> set (retrieved_chunks st).
          findall_dates (content c) = [] \<and> \<not> py_in ''Formula:'' (content c)
          \<and> \<not> py_in ''SELECT'' (content c)"
  then have "\<forall>c \<in> set (retrieved_chunks st). chunk_parts c = []"
    by (simp add: chunk_parts_def)
  then have "concat (map chunk_parts (retrieved_chunks st)) = []"
    by simp
  then show "constraints (snd (planner_node env w st)) = ''No specific constraints''"
    by (simp add: planner_constraints_eq extract_constraints_def)
next
  assume "concat (map chunk_parts (retrieved_chunks st)) \<noteq> []"
  then show "constraints (snd (planner_node env w st))
            = py_join ''; '' (concat (map chunk_parts (retrieved_chunks st)))"
    by (simp add: planner_constraints_eq extract_constraints_def)
next
  show "constraints (snd (planner_node env w st)) \<noteq> []"
    by (simp add: planner_constraints_eq extract_constraints_nonempty)
qed


lemma plain_no_hint:
  "\<forall>c \<in> set (retrieved_chunks st_plain).
     findall_dates (content c) = [] \<and> \<not> py_in ''Formula:'' (content c)
     \<and> \<not> py_in ''SELECT'' (content c)"
  apply (simp add: st_plain_def findall_plain)
  apply (simp add: plain_chunk_def)
  done

lemma docs_same_fields:
  "map (\<lambda>c. (source c, content c)) (retrieved_chunks st_docs)
     = map (\<lambda>c. (source c, content c)) (retrieved_chunks st_docs_other)"
  by (simp add: st_docs_def st_docs_other_def toy_docs_def calendar_chunk_def kpi_chunk_def)

lemma docs_constraints:
  "constraints (snd (planner_node env_rag 0 st_docs))
     = ''Relevant dates: June, july; KPI formula found in kpi_definitions.md''"
  by (simp add: planner_constraints_eq st_docs_def extract_toy_docs)

theorem planner_constraints_witness:
  "constraints (snd (planner_node env_rag 0 st_plain)) = ''No specific constraints''
   \<and> constraints (snd (planner_node env_sql 5 st_docs_other))
       = ''Relevant dates: June, july; KPI formula found in kpi_definitions.md''
   \<and> constraints (snd (planner_node env_rag 0 st_docs)) \<noteq> []"
proof -
  have a: "constraints (snd (planner_node env_rag 0 st_plain)) = ''No specific constraints''"
    using planner_constraints [of st_plain st_plain env_rag 0 env_rag 0] plain_no_hint
    by blast
  have b: "constraints (snd (planner_node env_rag 0 st_docs))
             = constraints (snd (planner_node env_sql 5 st_docs_other))"
    using planner_constraints [of st_docs st_docs_other env_rag 0 env_sql 5] docs_same_fields
    by blast
  have c: "constraints (snd (planner_node env_rag 0 st_docs)) \<noteq> []"
    using planner_constraints [of st_docs st_docs env_rag 0 env_rag 0] by blast
  from a b c docs_constraints show ?thesis by simp
qed

section \<open>The clean-up of the generated query\<close>

lemma dropWhile_id: "s \<noteq> [] \<Longrightarrow> \<not> P (hd s) \<Longrightarrow> dropWhile P s = s"
  by (cases s) auto

lemma py_strip_id:
  "s \<noteq> [] \<Longrightarrow> \<not> py_isspace (hd s) \<Longrightarrow> \<not> py_isspace (last s) \<Longrightarrow> py_strip s = s"
  by (simp add: py_strip_def dropWhile_id hd_rev)

lemma backtick_not_space: "\<not> py_isspace (CHR 0x60)"
  by (simp add: py_isspace_def)


lemma startswith_append: "startswith s (p @ q) \<Longrightarrow> startswith s p"
proof -
  assume "startswith s (p @ q)"
  then have h: "take (length p + length q) s = p @ q" by (simp add: startswith_def)
  have "take (length p) s = take (length p) (take (length p + length q) s)"
    by (simp add: min_def)
  also have "\<dots> = take (length p) (p @ q)" by (simp only: h)
  finally show ?thesis by (simp add: startswith_def)
qed




lemma py_strip_idem: "py_strip (py_strip s) = py_strip s"
proof (cases "py_strip s = []")
  case True
  have "py_strip [] = []" by (simp add: py_strip_def)
  with True show ?thesis by simp
next
  case False
  define d where "d = dropWhile py_isspace s"
  define r where "r = dropWhile py_isspace (rev d)"
  define t where "t = takeWhile py_isspace (rev d)"
  have ps: "py_strip s = rev r" by (simp add: py_strip_def d_def r_def)
  from False ps have rne: "r \<noteq> []" by simp
  then have "\<not> py_isspace (hd r)" unfolding r_def by (rule hd_dropWhile)
  then have l: "\<not> py_isspace (last (py_strip s))" using rne ps by (simp add: last_rev)
  have dne: "d \<noteq> []"
  proof
    assume "d = []"
    then have "r = []" by (simp add: r_def)
    with rne show False by blast
  qed
  then have hd: "\<not> py_isspace (hd d)" unfolding d_def by (rule hd_dropWhile)
  have "rev d = t @ r" unfolding t_def r_def by simp
  then have "rev (rev d) = rev (t @ r)" by (rule arg_cong)
  then have "d = rev r @ rev t" by simp
  with rne have "hd d = hd (rev r)" by simp
  with hd ps have h: "\<not> py_isspace (hd (py_strip s))" by simp
  from False h l show ?thesis by (rule py_strip_id)
qed

lemma clean_sql_plain:
  assumes "\<not> startswith (py_strip raw) fence" "\<not> endswith (py_strip raw) fence"
  shows "clean_sql raw = py_strip raw"
proof -
  have "\<not> startswith (py_strip raw) (fence @ ''sql'')"
    using assms(1) startswith_append by blast
  then show ?thesis
    using assms by (simp add: clean_sql_def Let_def py_strip_idem)
qed








section \<open>The validator\<close>

lemma no_rows_not_error: "''SQL returned no rows'' \<noteq> ''SQL error: '' @ e"
  by simp

lemma not_error_prefix:
  "\<not> startswith ''Answer should be a number'' ''SQL error: ''"
  "\<not> startswith ''Answer is not JSON serializable'' ''SQL error: ''"
  "\<not> startswith ''Missing citations'' ''SQL error: ''"
  "\<not> startswith ''SQL returned no rows'' ''SQL error: ''"
  by (simp_all add: startswith_def)

text \<open>
  C2, amended: for every state with mode \<open>sql\<close> or \<open>hybrid\<close>, the error check and the
  row check are one \<open>if\<close>/\<open>elif\<close>: when the last execution carries a (non-empty) error
  the Validator reports the error issue and not the no-rows issue; when it carries no
  error and no row it reports the no-rows issue and no error issue; otherwise neither.
  The two issues never fire together.
\<close>

theorem validator_sql_checks:
  assumes "mode st \<in> set [''sql'', ''hybrid'']"
  shows "(truthy (get_error (sql_result st))
           \<longrightarrow> (''SQL error: '' @ error_text (get_error (sql_result st))) \<in> set (validation_issues env st)
               \<and> ''SQL returned no rows'' \<notin> set (validation_issues env st))
       \<and> (\<not> truthy (get_error (sql_result st)) \<and> get_rows (sql_result st) = []
           \<longrightarrow> ''SQL returned no rows'' \<in> set (validation_issues env st)
               \<and> (\<forall>i \<in> set (validation_issues env st). \<not> startswith i ''SQL error: ''))
       \<and> (\<not> truthy (get_error (sql_result st)) \<and> get_rows (sql_result st) \<noteq> []
           \<longrightarrow> ''SQL returned no rows'' \<notin> set (validation_issues env st)
               \<and> (\<forall>i \<in> set (validation_issues env st). \<not> startswith i ''SQL error: ''))"
proof (intro conjI impI)
  assume t: "truthy (get_error (sql_result st))"
  show "(''SQL error: '' @ error_text (get_error (sql_result st))) \<in> set (validation_issues env st)"
    using assms t by (simp add: validation_issues_def)
  show "''SQL returned no rows'' \<notin> set (validation_issues env st)"
    using assms t by (simp add: validation_issues_def split: option.splits)
next
  assume t: "\<not> truthy (get_error (sql_result st)) \<and> get_rows (sql_result st) = []"
  show "''SQL returned no rows'' \<in> set (validation_issues env st)"
    using assms t by (simp add: validation_issues_def)
  show "\<forall>i \<in> set (validation_issues env st). \<not> startswith i ''SQL error: ''"
    using assms t by (auto simp: validation_issues_def not_error_prefix split: option.splits if_splits)
next
  assume t: "\<not> truthy (get_error (sql_result st)) \<and> get_rows (sql_result st) \<noteq> []"
  show "''SQL returned no rows'' \<notin> set (validation_issues env st)"
    using assms t by (simp add: validation_issues_def split: option.splits)
  show "\<forall>i \<in> set (validation_issues env st). \<not> startswith i ''SQL error: ''"
    using assms t by (auto simp: validation_issues_def not_error_prefix split: option.splits if_splits)
qed

lemma toy_float_42: "toy_float ''42'' = Some (Fin 42)"
  by (simp add: toy_float_def)

lemma issues_failed:
  "validation_issues env_sql st_failed = [''SQL error: no such table: Nope'']"
  by (simp add: validation_issues_def st_failed_def st_q1_def initial_state_def env_sql_def
      toy_env_def toy_float_42 get_error_def get_rows_def truthy_def error_text_def fault_def)

lemma issues_no_rows:
  "validation_issues env_sql st_no_rows = [''Missing citations'', ''SQL returned no rows'']"
  by (simp add: validation_issues_def st_no_rows_def st_q1_def initial_state_def env_sql_def
      toy_env_def toy_float_42 get_error_def get_rows_def truthy_def error_text_def)

text \<open>
  C2, as stated, fails: in mode \<open>sql\<close>, after an execution that produced an error and
  an empty row set, the Validator reports one issue, the error; the no-rows issue is
  not reported.
\<close>

theorem validator_error_and_no_rows_counterexample:
  "mode st_failed = ''sql''
   \<and> get_error (sql_result st_failed) = Some ''no such table: Nope''
   \<and> get_rows (sql_result st_failed) = []
   \<and> validation_issues env_sql st_failed = [''SQL error: no such table: Nope'']"
  by (simp add: issues_failed) (simp add: st_failed_def get_error_def get_rows_def fault_def)

theorem validator_sql_checks_witness:
  "''SQL error: no such table: Nope'' \<in> set (validation_issues env_sql st_failed)
   \<and> ''SQL returned no rows'' \<notin> set (validation_issues env_sql st_failed)
   \<and> ''SQL returned no rows'' \<in> set (validation_issues env_sql st_no_rows)"
proof -
  have m1: "mode st_failed \<in> set [''sql'', ''hybrid'']" by (simp add: st_failed_def)
  have m2: "mode st_no_rows \<in> set [''sql'', ''hybrid'']" by (simp add: st_no_rows_def)
  have e1: "truthy (get_error (sql_result st_failed))"
    by (simp add: st_failed_def get_error_def truthy_def fault_def)
  have t1: "error_text (get_error (sql_result st_failed)) = ''no such table: Nope''"
    by (simp add: st_failed_def get_error_def error_text_def fault_def)
  have e2: "\<not> truthy (get_error (sql_result st_no_rows)) \<and> get_rows (sql_result st_no_rows) = []"
    by (simp add: st_no_rows_def get_error_def get_rows_def truthy_def)
  from validator_sql_checks [OF m1, of env_sql] e1 t1
  have a: "''SQL error: no such table: Nope'' \<in> set (validation_issues env_sql st_failed)
     \<and> ''SQL returned no rows'' \<notin> set (validation_issues env_sql st_failed)"
    by simp
  from validator_sql_checks [OF m2, of env_sql] e2
  have b: "''SQL returned no rows'' \<in> set (validation_issues env_sql st_no_rows)"
    by blast
  from a b show ?thesis by blast
qed

section \<open>Evaluating the concrete environment\<close>

lemmas node_defs = router_node_def retriever_node_def planner_node_def nl2sql_node_def
  executor_node_def synthesizer_node_def validate_and_repair_node_def

lemma toy_sel:
  "predict_mode (toy_env m gen cit conf) = (\<lambda>w q. (m, Suc w))"
  "predict_sql (toy_env m gen cit conf) = (\<lambda>w q cs schema. (gen w cs, Suc w))"
  "predict_synth (toy_env m gen cit conf) = (\<lambda>w q fh docs rows_text sql_text.
         (\<lparr>raw_final_answer = PStr ''42'', raw_citations = cit,
           raw_confidence = conf, raw_explanation = PStr ''ok''\<rparr>, Suc w))"
  "rag_retrieve (toy_env m gen cit conf) = (\<lambda>w q k. (take k toy_docs, w))"
  "get_schema_summary (toy_env m gen cit conf) = (\<lambda>w. (''Table: Products'', w))"
  "cursor_execute (toy_env m gen cit conf) = (\<lambda>w q. (toy_db q, w))"
  "conn_commit (toy_env m gen cit conf) = (\<lambda>w. (None, w))"
  "float_of_str (toy_env m gen cit conf) = toy_float"
  "json_dumps_ok (toy_env m gen cit conf) = (\<lambda>v. True)"
  "dumps_rows (toy_env m gen cit conf) = (\<lambda>rows. Inr ''[...]'')"
  "str_obj (toy_env m gen cit conf) = PStr"
  "as_str (toy_env m gen cit conf) (PStr s) = Some s"
  "as_str (toy_env m gen cit conf) (PInt i) = None"
  "as_str (toy_env m gen cit conf) PNone = None"
  "py_float (toy_env m gen cit conf) (PStr s) = toy_float s"
  "py_float (toy_env m gen cit conf) (PInt i) = Some (Fin (of_int i))"
  "py_float (toy_env m gen cit conf) PNone = None"
  "py_str (toy_env m gen cit conf) (PStr s) = s"
  by (simp_all add: toy_env_def)

lemmas env_defs = env_sql_def env_rag_def env_rag_cited_def env_hybrid_bad_def env_fenced_def
  env_fenced_upper_def

section \<open>The confidence of the synthesizer\<close>

lemma clamp_in_unit: "in_unit (py_max (Fin 0) (py_min (Fin 1) f))"
  by (cases f) (auto simp: py_max_def py_min_def)

lemma parse_confidence_in_unit: "in_unit (parse_confidence env c)"
  by (simp add: parse_confidence_def clamp_in_unit split: option.splits)

lemma synthesizer_confidence:
  assumes "synthesizer_node env w st = Inr (w', st')"
      and "render_rows env (sql_result st) = Inr t"
  shows "confidence st' = parse_confidence env (raw_confidence (fst (predict_synth env w
           (question st) (format_hint st) (render_docs (retrieved_chunks st)) t (sql st))))"
  using assms
  by (auto simp: synthesizer_node_def Synthesizer_forward_def split: prod.splits sum.splits)

lemma synthesizer_in_unit:
  assumes "synthesizer_node env w st = Inr (w', st')"
  shows "in_unit (confidence st')"
  using assms
  by (auto simp: synthesizer_node_def Synthesizer_forward_def parse_confidence_in_unit
      split: prod.splits sum.splits)

lemma step_confidence:
  assumes "in_unit (confidence st)" and "step env n w st = Inr (n', w', st')"
  shows "in_unit (confidence st')"
proof (cases n)
  case Synthesizer
  with assms(2) obtain w1 where "synthesizer_node env w st = Inr (w1, st')"
    by (auto simp: step_def split: sum.splits)
  then show ?thesis by (rule synthesizer_in_unit)
qed (use assms in \<open>auto simp: step_def node_defs Let_def split: prod.splits\<close>)

text \<open>A property that every node invocation keeps holds at the end of a run.\<close>

lemma invoke_invariant:
  assumes pres: "\<And>n w st n' w' st'. P st \<Longrightarrow> step env n w st = Inr (n', w', st') \<Longrightarrow> P st'"
  shows "P st \<Longrightarrow> invoke_from env k n w st = (Inr st', w') \<Longrightarrow> P st'"
proof (induction k arbitrary: n w st)
  case 0
  then show ?case by (simp split: if_splits)
next
  case (Suc k)
  show ?case
  proof (cases "n = END")
    case True
    with Suc.prems show ?thesis by simp
  next
    case False
    with Suc.prems(2) obtain n1 w1 st1 where s: "step env n w st = Inr (n1, w1, st1)"
      and r: "invoke_from env k n1 w1 st1 = (Inr st', w')"
      by (auto split: sum.splits)
    from pres [OF Suc.prems(1) s] have "P st1" .
    then show ?thesis using r by (rule Suc.IH)
  qed
qed

lemma run_confidence:
  assumes "run env limit w question_id q fh = (Inr res, w')"
  shows "in_unit (r_confidence res)"
proof -
  from assms obtain fs
    where i: "invoke_from env limit Router w (initial_state env question_id q fh) = (Inr fs, w')"
      and r: "r_confidence res = confidence fs"
    by (auto simp: run_def split: prod.splits sum.splits)
  have "in_unit (confidence fs)"
  proof (rule invoke_invariant [where P = "\<lambda>s. in_unit (confidence s)"])
    show "\<And>n w st n' w' st'. in_unit (confidence st) \<Longrightarrow> step env n w st = Inr (n', w', st')
            \<Longrightarrow> in_unit (confidence st')"
      by (rule step_confidence)
    show "in_unit (confidence (initial_state env question_id q fh))"
      by (simp add: initial_state_def)
    show "invoke_from env limit Router w (initial_state env question_id q fh) = (Inr fs, w')"
      by (rule i)
  qed
  with r show ?thesis by simp
qed

text \<open>
  C9: whatever the synthesis transform returns in its confidence field, the confidence
  that \<open>Synthesizer.forward\<close> computes, that \<open>synthesizer_node\<close> stores and that every
  record of the batch carries lies between 0 and 1: a number above 1 becomes 1.0, a
  number below 0 becomes 0.0, and a value that \<open>float\<close> rejects becomes 0.5.
\<close>

theorem confidence_clamped:
  "in_unit (parse_confidence env c)
   \<and> (py_float env c = Some (Fin x) \<and> 1 < x \<longrightarrow> parse_confidence env c = Fin 1)
   \<and> (py_float env c = Some (Fin x) \<and> x < 0 \<longrightarrow> parse_confidence env c = Fin 0)
   \<and> (py_float env c = None \<longrightarrow> parse_confidence env c = Fin 0.5)
   \<and> (synthesizer_node env w st = Inr (w', st') \<and> render_rows env (sql_result st) = Inr t
        \<longrightarrow> in_unit (confidence st')
            \<and> confidence st' = parse_confidence env (raw_confidence (fst (predict_synth env w
                 (question st) (format_hint st) (render_docs (retrieved_chunks st)) t (sql st)))))
   \<and> in_unit (r_confidence (fst (process_item env limit idx w0 it)))"
proof (intro conjI impI)
  show "in_unit (parse_confidence env c)" by (rule parse_confidence_in_unit)
  show "py_float env c = Some (Fin x) \<and> 1 < x \<Longrightarrow> parse_confidence env c = Fin 1"
    by (simp add: parse_confidence_def py_max_def py_min_def)
  show "py_float env c = Some (Fin x) \<and> x < 0 \<Longrightarrow> parse_confidence env c = Fin 0"
    by (simp add: parse_confidence_def py_max_def py_min_def)
  show "py_float env c = None \<Longrightarrow> parse_confidence env c = Fin 0.5"
    by (simp add: parse_confidence_def)
  show "synthesizer_node env w st = Inr (w', st') \<and> render_rows env (sql_result st) = Inr t
     \<Longrightarrow> in_unit (confidence st')"
    by (erule conjE) (rule synthesizer_in_unit)
  show "synthesizer_node env w st = Inr (w', st') \<and> render_rows env (sql_result st) = Inr t
     \<Longrightarrow> confidence st' = parse_confidence env (raw_confidence (fst (predict_synth env w
                 (question st) (format_hint st) (render_docs (retrieved_chunks st)) t (sql st))))"
    by (erule conjE) (rule synthesizer_confidence)
  show "in_unit (r_confidence (fst (process_item env limit idx w0 it)))"
    by (auto simp: process_item_def Let_def run_confidence split: prod.splits sum.splits)
qed

lemma render_rows_failed:
  "render_rows env_hybrid_bad (sql_result st_failed) = Inr ''SQL Error: no such table: Nope''"
  by (simp add: render_rows_def st_failed_def get_error_def truthy_def error_text_def fault_def)

lemma citations_chunk1:
  "parse_citations env_hybrid_bad (PStr ''kpi_definitions::chunk1'') = [''kpi_definitions::chunk1'']"
  by (simp add: parse_citations_def env_hybrid_bad_def toy_sel py_strip_def py_isspace_def)

lemma confidence_bad: "parse_confidence env_hybrid_bad (PStr ''1.5'') = Fin 1"
  by (simp add: env_hybrid_bad_def toy_sel parse_confidence_def toy_float_def py_max_def
      py_min_def)

lemma predict_synth_bad:
  "predict_synth env_hybrid_bad w q fh docs rows_text sql_text
     = (\<lparr>raw_final_answer = PStr ''42'', raw_citations = PStr ''kpi_definitions::chunk1'',
          raw_confidence = PStr ''1.5'', raw_explanation = PStr ''ok''\<rparr>, Suc w)"
  by (simp add: env_hybrid_bad_def toy_sel)

lemma synthesizer_failed:
  "synthesizer_node env_hybrid_bad 2 st_failed = Inr (3, st_synth)"
  by (simp add: synthesizer_node_def render_rows_failed Synthesizer_forward_def
      predict_synth_bad citations_chunk1 confidence_bad)
     (simp add: st_synth_def st_failed_def st_q1_def initial_state_def)

theorem confidence_clamped_witness:
  "parse_confidence env_sql (PStr ''1.5'') = Fin 1
   \<and> parse_confidence env_sql (PStr ''-2'') = Fin 0
   \<and> parse_confidence env_sql (PStr ''abc'') = Fin 0.5
   \<and> in_unit (parse_confidence env_sql (PStr ''nan''))
   \<and> in_unit (confidence st_synth)"
proof -
  have f1: "py_float env_sql (PStr ''1.5'') = Some (Fin 1.5) \<and> (1::real) < 1.5"
    by (simp add: env_sql_def toy_sel toy_float_def)
  have f2: "py_float env_sql (PStr ''-2'') = Some (Fin (- 2)) \<and> (- 2::real) < 0"
    by (simp add: env_sql_def toy_sel toy_float_def)
  have f3: "py_float env_sql (PStr ''abc'') = None"
    by (simp add: env_sql_def toy_sel toy_float_def)
  have a: "parse_confidence env_sql (PStr ''1.5'') = Fin 1"
    using confidence_clamped [where env = env_sql and c = "PStr ''1.5''" and x = "1.5"] f1
    by blast
  have b: "parse_confidence env_sql (PStr ''-2'') = Fin 0"
    using confidence_clamped [where env = env_sql and c = "PStr ''-2''" and x = "- 2"] f2
    by blast
  have c: "parse_confidence env_sql (PStr ''abc'') = Fin 0.5"
    using confidence_clamped [where env = env_sql and c = "PStr ''abc''"] f3
    by blast
  have d: "in_unit (parse_confidence env_sql (PStr ''nan''))"
    using confidence_clamped [where env = env_sql and c = "PStr ''nan''"] by blast
  have e: "in_unit (confidence st_synth)"
    using confidence_clamped [where env = env_hybrid_bad and w = 2 and st = st_failed
        and w' = 3 and st' = st_synth and t = "''SQL Error: no such table: Nope''"]
      synthesizer_failed render_rows_failed
    by blast
  from a b c d e show ?thesis by blast
qed

section \<open>The query executor\<close>
















lemma select_lower: "starts_with_select ''  select 1''"
  by (simp add: starts_with_select_def py_strip_def py_isspace_def ascii_upper_def char_of_eq_iff take_bit_eq_mod)





section \<open>Steps and frames of the nodes\<close>

lemma step_simps:
  "step env Router w st = Inr (route_after_router (snd (router_node env w st)), router_node env w st)"
  "step env Retriever w st = Inr (Planner, retriever_node env w st)"
  "step env Planner w st = Inr (route_after_planner (snd (planner_node env w st)), planner_node env w st)"
  "step env Nl2sql w st = Inr (Executor, nl2sql_node env w st)"
  "step env Executor w st = Inr (Synthesizer, executor_node env w st)"
  "step env Synthesizer w st = map_sum id (Pair Validate) (synthesizer_node env w st)"
  "step env Validate w st
     = Inr (route_after_validation (snd (validate_and_repair_node env w st)),
            validate_and_repair_node env w st)"
  "step env END w st = Inr (END, w, st)"
  by (simp_all add: step_def split: prod.splits sum.splits)

lemma route_after_validation_range:
  "route_after_validation s \<in> {Nl2sql, Synthesizer, END}"
  by (simp add: route_after_validation_def)

lemma executor_frame:
  "constraints (snd (executor_node env w st)) = constraints st"
  "mode (snd (executor_node env w st)) = mode st"
  "question (snd (executor_node env w st)) = question st"
  "qid (snd (executor_node env w st)) = qid st"
  "sql (snd (executor_node env w st)) = sql st"
  "retrieved_chunks (snd (executor_node env w st)) = retrieved_chunks st"
  "attempts (snd (executor_node env w st)) = attempts st + 1"
  "sql_result (snd (executor_node env w st)) = Some (fst (execute_sql env w (sql st)))"
  by (simp_all add: executor_node_def split: prod.splits)

lemma validate_frame:
  "constraints (snd (validate_and_repair_node env w st)) = constraints st"
  "mode (snd (validate_and_repair_node env w st)) = mode st"
  "question (snd (validate_and_repair_node env w st)) = question st"
  "qid (snd (validate_and_repair_node env w st)) = qid st"
  "sql (snd (validate_and_repair_node env w st)) = sql st"
  "retrieved_chunks (snd (validate_and_repair_node env w st)) = retrieved_chunks st"
  "attempts (snd (validate_and_repair_node env w st)) = attempts st"
  "sql_result (snd (validate_and_repair_node env w st)) = sql_result st"
  "citations (snd (validate_and_repair_node env w st)) = citations st"
  "done_flag (snd (validate_and_repair_node env w st))
     = (validation_issues env st = [] \<or> 2 \<le> attempts st)"
  "fst (validate_and_repair_node env w st) = w"
  by (simp_all add: validate_and_repair_node_def Let_def)

lemma nl2sql_frame:
  "constraints (snd (nl2sql_node env w st)) = constraints st"
  "mode (snd (nl2sql_node env w st)) = mode st"
  "question (snd (nl2sql_node env w st)) = question st"
  "qid (snd (nl2sql_node env w st)) = qid st"
  "retrieved_chunks (snd (nl2sql_node env w st)) = retrieved_chunks st"
  "attempts (snd (nl2sql_node env w st)) = attempts st"
  "sql_result (snd (nl2sql_node env w st)) = sql_result st"
  by (simp_all add: nl2sql_node_def NL2SQL_forward_def Let_def split: prod.splits)

lemma synthesizer_frame:
  assumes "synthesizer_node env w st = Inr (w', st')"
  shows "constraints st' = constraints st" "mode st' = mode st" "question st' = question st"
    "qid st' = qid st" "sql st' = sql st" "retrieved_chunks st' = retrieved_chunks st"
    "attempts st' = attempts st" "sql_result st' = sql_result st"
  using assms
  by (auto simp: synthesizer_node_def split: prod.splits sum.splits)

lemma router_frame:
  "constraints (snd (router_node env w st)) = constraints st"
  "question (snd (router_node env w st)) = question st"
  "qid (snd (router_node env w st)) = qid st"
  "sql (snd (router_node env w st)) = sql st"
  "retrieved_chunks (snd (router_node env w st)) = retrieved_chunks st"
  "attempts (snd (router_node env w st)) = attempts st"
  "sql_result (snd (router_node env w st)) = sql_result st"
  "mode (snd (router_node env w st)) = fst (Router_forward env w (question st))"
  by (simp_all add: router_node_def split: prod.splits)

lemma retriever_frame:
  "constraints (snd (retriever_node env w st)) = constraints st"
  "mode (snd (retriever_node env w st)) = mode st"
  "question (snd (retriever_node env w st)) = question st"
  "qid (snd (retriever_node env w st)) = qid st"
  "sql (snd (retriever_node env w st)) = sql st"
  "attempts (snd (retriever_node env w st)) = attempts st"
  "sql_result (snd (retriever_node env w st)) = sql_result st"
  by (simp_all add: retriever_node_def split: prod.splits)

lemma planner_frame:
  "mode (snd (planner_node env w st)) = mode st"
  "question (snd (planner_node env w st)) = question st"
  "qid (snd (planner_node env w st)) = qid st"
  "sql (snd (planner_node env w st)) = sql st"
  "retrieved_chunks (snd (planner_node env w st)) = retrieved_chunks st"
  "attempts (snd (planner_node env w st)) = attempts st"
  "sql_result (snd (planner_node env w st)) = sql_result st"
  by (simp_all add: planner_node_def Let_def)

section \<open>Query generation on repair\<close>

lemma nl2sql_node_result:
  assumes "get_schema_summary env w = (schema, wa)"
      and "predict_sql env wa (question st) (nl2sql_constraints st) schema = (raw, wb)"
  shows "nl2sql_node env w st
           = (wb, st\<lparr>sql := clean_sql (py_strip raw),
                      trace := trace st @ [TNl2sql (clean_sql (py_strip raw)) (attempts st + 1)]\<rparr>)"
  using assms by (simp add: nl2sql_node_def NL2SQL_forward_def Let_def)

lemma step_cycle:
  assumes "n \<in> {Nl2sql, Executor, Synthesizer, Validate, END}"
      and "step env n w st = Inr (n', w', st')"
  shows "n' \<in> {Nl2sql, Executor, Synthesizer, Validate, END} \<and> constraints st' = constraints st"
proof (cases n)
  case Nl2sql
  with assms(2) have "n' = Executor" "st' = snd (nl2sql_node env w st)"
    by (auto simp: step_simps)
  then show ?thesis by (simp add: nl2sql_frame)
next
  case Executor
  with assms(2) have "n' = Synthesizer" "st' = snd (executor_node env w st)"
    by (auto simp: step_simps)
  then show ?thesis by (simp add: executor_frame)
next
  case Synthesizer
  with assms(2) obtain wx where "synthesizer_node env w st = Inr (wx, st')" "n' = Validate"
    by (cases "synthesizer_node env w st") (auto simp: step_simps)
  then show ?thesis by (simp add: synthesizer_frame)
next
  case Validate
  with assms(2) have "n' = route_after_validation (snd (validate_and_repair_node env w st))"
    "st' = snd (validate_and_repair_node env w st)"
    by (auto simp: step_simps)
  then show ?thesis using route_after_validation_range [of "snd (validate_and_repair_node env w st)"]
    by (auto simp: validate_frame)
next
  case END
  with assms(2) show ?thesis by (auto simp: step_simps)
qed (use assms(1) in simp_all)

lemma steps_cycle:
  "n \<in> {Nl2sql, Executor, Synthesizer, Validate, END}
   \<Longrightarrow> steps env k n w st = Some (n', w', st')
   \<Longrightarrow> n' \<in> {Nl2sql, Executor, Synthesizer, Validate, END} \<and> constraints st' = constraints st"
proof (induction k arbitrary: n w st)
  case 0
  then show ?case by simp
next
  case (Suc k)
  from Suc.prems(2) obtain n1 w1 st1 where s: "step env n w st = Inr (n1, w1, st1)"
    and r: "steps env k n1 w1 st1 = Some (n', w', st')"
    by (auto split: sum.splits)
  from step_cycle [OF Suc.prems(1) s]
  have n1: "n1 \<in> {Nl2sql, Executor, Synthesizer, Validate, END}"
    and c1: "constraints st1 = constraints st" by simp_all
  from Suc.IH [OF n1 r] c1 show ?case by simp
qed

text \<open>
  C8: \<open>nl2sql_node\<close> writes the query and the trace only, so the stored constraints are
  unchanged; on a repair entry (\<open>attempts > 0\<close>) the transform is called with the stored
  constraints followed by the previous error message and the instruction to fix the
  query, on the first entry with the stored constraints as they are; and in the whole
  repair cycle (Generating, Executing, Synthesizing, Validating) no node writes the
  constraints and no edge leads back to the planner.
\<close>

theorem nl2sql_repair_constraints:
  "constraints (snd (nl2sql_node env w st)) = constraints st
   \<and> (0 < attempts st \<and> get_schema_summary env w = (schema, wa)
        \<and> predict_sql env wa (question st)
             (constraints st @ '' Previous SQL failed with: '' @ prev_error_text (sql_result st)
                @ ''. Please fix the SQL.'') schema = (raw, wb)
       \<longrightarrow> nl2sql_node env w st
             = (wb, st\<lparr>sql := clean_sql (py_strip raw),
                        trace := trace st @ [TNl2sql (clean_sql (py_strip raw)) (attempts st + 1)]\<rparr>))
   \<and> (attempts st = 0 \<and> get_schema_summary env w = (schema, wa)
        \<and> predict_sql env wa (question st) (constraints st) schema = (raw, wb)
       \<longrightarrow> nl2sql_node env w st
             = (wb, st\<lparr>sql := clean_sql (py_strip raw),
                        trace := trace st @ [TNl2sql (clean_sql (py_strip raw)) (attempts st + 1)]\<rparr>))
   \<and> (sql_result st = Some r \<and> res_error r = Some e \<longrightarrow> prev_error_text (sql_result st) = e)
   \<and> (n \<in> {Nl2sql, Executor, Synthesizer, Validate, END} \<and> steps env k n w st = Some (n', w', st')
       \<longrightarrow> n' \<in> {Nl2sql, Executor, Synthesizer, Validate, END} \<and> constraints st' = constraints st)"
proof (intro conjI impI)
  show "constraints (snd (nl2sql_node env w st)) = constraints st" by (rule nl2sql_frame(1))
next
  assume h: "0 < attempts st \<and> get_schema_summary env w = (schema, wa)
        \<and> predict_sql env wa (question st)
             (constraints st @ '' Previous SQL failed with: '' @ prev_error_text (sql_result st)
                @ ''. Please fix the SQL.'') schema = (raw, wb)"
  then have c: "nl2sql_constraints st = constraints st @ '' Previous SQL failed with: ''
      @ prev_error_text (sql_result st) @ ''. Please fix the SQL.''"
    by (simp add: nl2sql_constraints_def)
  from h have a: "get_schema_summary env w = (schema, wa)"
    and b: "predict_sql env wa (question st) (nl2sql_constraints st) schema = (raw, wb)"
    by (simp_all only: c)
  show "nl2sql_node env w st
             = (wb, st\<lparr>sql := clean_sql (py_strip raw),
                        trace := trace st @ [TNl2sql (clean_sql (py_strip raw)) (attempts st + 1)]\<rparr>)"
    by (rule nl2sql_node_result [OF a b])
next
  assume h: "attempts st = 0 \<and> get_schema_summary env w = (schema, wa)
        \<and> predict_sql env wa (question st) (constraints st) schema = (raw, wb)"
  then have c: "nl2sql_constraints st = constraints st"
    by (simp add: nl2sql_constraints_def)
  from h have a: "get_schema_summary env w = (schema, wa)"
    and b: "predict_sql env wa (question st) (nl2sql_constraints st) schema = (raw, wb)"
    by (simp_all only: c)
  show "nl2sql_node env w st
             = (wb, st\<lparr>sql := clean_sql (py_strip raw),
                        trace := trace st @ [TNl2sql (clean_sql (py_strip raw)) (attempts st + 1)]\<rparr>)"
    by (rule nl2sql_node_result [OF a b])
next
  assume "sql_result st = Some r \<and> res_error r = Some e"
  then show "prev_error_text (sql_result st) = e" by (simp add: prev_error_text_def)
next
  assume h: "n \<in> {Nl2sql, Executor, Synthesizer, Validate, END} \<and> steps env k n w st = Some (n', w', st')"
  then have "n' \<in> {Nl2sql, Executor, Synthesizer, Validate, END} \<and> constraints st' = constraints st"
    by (elim conjE) (rule steps_cycle)
  then show "n' \<in> {Nl2sql, Executor, Synthesizer, Validate, END}" and "constraints st' = constraints st"
    by simp_all
qed

lemma repair_text_clean: "clean_sql (py_strip repair_text) = repair_text"
proof -
  have s: "py_strip repair_text = repair_text"
    by (rule py_strip_id) (simp_all add: repair_text_def py_isspace_def)
  have a: "\<not> startswith repair_text fence"
    by (simp add: startswith_def repair_text_def fence_def)
  have b: "\<not> endswith repair_text fence"
    by (simp add: endswith_def repair_text_def fence_def)
  from a b s show ?thesis using clean_sql_plain [of repair_text] by simp
qed

lemma failed_fields:
  "attempts st_failed = 1" "question st_failed = ''Total units?''"
  "constraints st_failed = ''No specific constraints''"
  "sql_result st_failed = Some (fault ''no such table: Nope'')"
  "trace st_failed = []"
  by (simp_all add: st_failed_def st_q1_def initial_state_def)

lemma repair_text_eq:
  "constraints st_failed @ '' Previous SQL failed with: '' @ prev_error_text (sql_result st_failed)
     @ ''. Please fix the SQL.'' = repair_text"
  by (simp add: failed_fields prev_error_text_def fault_def repair_text_def)

theorem nl2sql_repair_constraints_witness:
  "nl2sql_node env_echo 2 st_failed = (3, st_repaired)
   \<and> sql st_repaired = repair_text
   \<and> constraints st_repaired = ''No specific constraints''
   \<and> prev_error_text (sql_result st_failed) = ''no such table: Nope''"
proof -
  have a: "0 < attempts st_failed \<and> get_schema_summary env_echo 2 = (''Table: Products'', 2)
        \<and> predict_sql env_echo 2 (question st_failed)
             (constraints st_failed @ '' Previous SQL failed with: ''
                @ prev_error_text (sql_result st_failed) @ ''. Please fix the SQL.'')
             ''Table: Products'' = (repair_text, 3)"
    unfolding repair_text_eq by (simp add: failed_fields env_echo_def toy_sel gen_echo_def)
  have n: "nl2sql_node env_echo 2 st_failed
             = (3, st_failed\<lparr>sql := clean_sql (py_strip repair_text),
                   trace := trace st_failed @ [TNl2sql (clean_sql (py_strip repair_text))
                     (attempts st_failed + 1)]\<rparr>)"
    by (rule nl2sql_repair_constraints [THEN conjunct2, THEN conjunct1, THEN mp, OF a])
  then have n': "nl2sql_node env_echo 2 st_failed = (3, st_repaired)"
    by (simp add: repair_text_clean failed_fields st_repaired_def)
  have s: "Nl2sql \<in> {Nl2sql, Executor, Synthesizer, Validate, END}
      \<and> steps env_echo 1 Nl2sql 2 st_failed = Some (Executor, 3, st_repaired)"
    by (simp add: step_simps n')
  have c: "Executor \<in> {Nl2sql, Executor, Synthesizer, Validate, END}
      \<and> constraints st_repaired = constraints st_failed"
    by (rule nl2sql_repair_constraints [THEN conjunct2, THEN conjunct2, THEN conjunct2,
          THEN conjunct2, THEN mp, OF s])
  have r: "sql_result st_failed = Some (fault ''no such table: Nope'')
        \<and> res_error (fault ''no such table: Nope'' :: pyobj exec_result) = Some ''no such table: Nope''"
    by (simp add: failed_fields fault_def)
  have e: "prev_error_text (sql_result st_failed) = ''no such table: Nope''"
    by (rule nl2sql_repair_constraints [THEN conjunct2, THEN conjunct2, THEN conjunct2,
          THEN conjunct1, THEN mp, OF r])
  from n' c e show ?thesis by (simp add: failed_fields st_repaired_def)
qed

section \<open>States skipped by the mode\<close>

lemma route_after_validation_no_error:
  "sql_result s = None \<Longrightarrow> route_after_validation s \<in> {Synthesizer, END}"
  by (simp add: route_after_validation_def get_error_def truthy_def)

lemma step_rag:
  assumes "mode st = ''rag'' \<and> sql st = [] \<and> sql_result st = None
             \<and> n \<in> {Retriever, Planner, Synthesizer, Validate, END}"
      and "step env n w st = Inr (n', w', st')"
  shows "mode st' = ''rag'' \<and> sql st' = [] \<and> sql_result st' = None
             \<and> n' \<in> {Retriever, Planner, Synthesizer, Validate, END}"
proof (cases n)
  case Retriever
  with assms(2) have "n' = Planner" "st' = snd (retriever_node env w st)"
    by (auto simp: step_simps)
  with assms(1) show ?thesis by (simp add: retriever_frame)
next
  case Planner
  with assms(2) have "n' = route_after_planner (snd (planner_node env w st))"
    "st' = snd (planner_node env w st)"
    by (auto simp: step_simps)
  with assms(1) show ?thesis by (simp add: planner_frame route_after_planner_def)
next
  case Synthesizer
  with assms(2) obtain wx where "synthesizer_node env w st = Inr (wx, st')" "n' = Validate"
    by (cases "synthesizer_node env w st") (auto simp: step_simps)
  with assms(1) show ?thesis by (simp add: synthesizer_frame)
next
  case Validate
  with assms(2) have "n' = route_after_validation (snd (validate_and_repair_node env w st))"
    "st' = snd (validate_and_repair_node env w st)"
    by (auto simp: step_simps)
  with assms(1) show ?thesis
    using route_after_validation_no_error [of "snd (validate_and_repair_node env w st)"]
    by (auto simp: validate_frame)
next
  case END
  with assms show ?thesis by (auto simp: step_simps)
qed (use assms(1) in simp_all)

lemma steps_rag:
  "mode st = ''rag'' \<and> sql st = [] \<and> sql_result st = None
     \<and> n \<in> {Retriever, Planner, Synthesizer, Validate, END}
   \<Longrightarrow> steps env k n w st = Some (n', w', st')
   \<Longrightarrow> n' \<in> {Retriever, Planner, Synthesizer, Validate, END} \<and> sql st' = []"
proof (induction k arbitrary: n w st)
  case 0
  then show ?case by simp
next
  case (Suc k)
  from Suc.prems(2) obtain n1 w1 st1 where s: "step env n w st = Inr (n1, w1, st1)"
    and r: "steps env k n1 w1 st1 = Some (n', w', st')"
    by (auto split: sum.splits)
  from step_rag [OF Suc.prems(1) s] r show ?case by (rule Suc.IH)
qed

lemma step_sql:
  assumes "mode st = ''sql'' \<and> retrieved_chunks st = []
             \<and> n \<in> {Planner, Nl2sql, Executor, Synthesizer, Validate, END}"
      and "step env n w st = Inr (n', w', st')"
  shows "mode st' = ''sql'' \<and> retrieved_chunks st' = []
             \<and> n' \<in> {Planner, Nl2sql, Executor, Synthesizer, Validate, END}"
proof (cases n)
  case Planner
  with assms(2) have "n' = route_after_planner (snd (planner_node env w st))"
    "st' = snd (planner_node env w st)"
    by (auto simp: step_simps)
  with assms(1) show ?thesis by (simp add: planner_frame route_after_planner_def)
next
  case Nl2sql
  with assms(2) have "n' = Executor" "st' = snd (nl2sql_node env w st)"
    by (auto simp: step_simps)
  with assms(1) show ?thesis by (simp add: nl2sql_frame)
next
  case Executor
  with assms(2) have "n' = Synthesizer" "st' = snd (executor_node env w st)"
    by (auto simp: step_simps)
  with assms(1) show ?thesis by (simp add: executor_frame)
next
  case Synthesizer
  with assms(2) obtain wx where "synthesizer_node env w st = Inr (wx, st')" "n' = Validate"
    by (cases "synthesizer_node env w st") (auto simp: step_simps)
  with assms(1) show ?thesis by (simp add: synthesizer_frame)
next
  case Validate
  with assms(2) have "n' = route_after_validation (snd (validate_and_repair_node env w st))"
    "st' = snd (validate_and_repair_node env w st)"
    by (auto simp: step_simps)
  with assms(1) show ?thesis
    using route_after_validation_range [of "snd (validate_and_repair_node env w st)"]
    by (auto simp: validate_frame)
next
  case END
  with assms show ?thesis by (auto simp: step_simps)
qed (use assms(1) in simp_all)

lemma steps_sql:
  "mode st = ''sql'' \<and> retrieved_chunks st = []
     \<and> n \<in> {Planner, Nl2sql, Executor, Synthesizer, Validate, END}
   \<Longrightarrow> steps env k n w st = Some (n', w', st')
   \<Longrightarrow> n' \<in> {Planner, Nl2sql, Executor, Synthesizer, Validate, END} \<and> retrieved_chunks st' = []"
proof (induction k arbitrary: n w st)
  case 0
  then show ?case by simp
next
  case (Suc k)
  from Suc.prems(2) obtain n1 w1 st1 where s: "step env n w st = Inr (n1, w1, st1)"
    and r: "steps env k n1 w1 st1 = Some (n', w', st')"
    by (auto split: sum.splits)
  from step_sql [OF Suc.prems(1) s] r show ?case by (rule Suc.IH)
qed

lemma initial_fields:
  "question (initial_state env i q fh) = q" "sql (initial_state env i q fh) = []"
  "sql_result (initial_state env i q fh) = None" "retrieved_chunks (initial_state env i q fh) = []"
  "attempts (initial_state env i q fh) = 0" "qid (initial_state env i q fh) = i"
  "format_hint (initial_state env i q fh) = fh" "constraints (initial_state env i q fh) = []"
  by (simp_all add: initial_state_def)

lemma steps_from_router:
  assumes "steps env (Suc k) Router w st = Some (n, w', st')"
  shows "steps env k (route_after_router (snd (router_node env w st)))
           (fst (router_node env w st)) (snd (router_node env w st)) = Some (n, w', st')"
  using assms by (simp add: step_simps split: prod.splits)

lemma rag_run:
  assumes m: "fst (Router_forward env w q) = ''rag''"
      and s: "steps env k Router w (initial_state env i q fh) = Some (n, w', st)"
  shows "n \<notin> {Nl2sql, Executor} \<and> sql st = []"
proof (cases k)
  case 0
  with s show ?thesis by (auto simp: initial_fields)
next
  case (Suc j)
  let ?s0 = "initial_state env i q fh"
  let ?s1 = "snd (router_node env w ?s0)"
  from s Suc have r: "steps env j (route_after_router ?s1) (fst (router_node env w ?s0)) ?s1
      = Some (n, w', st)"
    by (simp add: steps_from_router)
  have mode1: "mode ?s1 = ''rag''" using m by (simp add: router_frame initial_fields)
  then have "route_after_router ?s1 = Retriever" by (simp add: route_after_router_def)
  with mode1 have "mode ?s1 = ''rag'' \<and> sql ?s1 = [] \<and> sql_result ?s1 = None
     \<and> route_after_router ?s1 \<in> {Retriever, Planner, Synthesizer, Validate, END}"
    by (simp add: router_frame initial_fields)
  from steps_rag [OF this r] show ?thesis by auto
qed

lemma sql_run:
  assumes m: "fst (Router_forward env w q) = ''sql''"
      and s: "steps env k Router w (initial_state env i q fh) = Some (n, w', st)"
  shows "n \<noteq> Retriever \<and> retrieved_chunks st = []"
proof (cases k)
  case 0
  with s show ?thesis by (auto simp: initial_fields)
next
  case (Suc j)
  let ?s0 = "initial_state env i q fh"
  let ?s1 = "snd (router_node env w ?s0)"
  from s Suc have r: "steps env j (route_after_router ?s1) (fst (router_node env w ?s0)) ?s1
      = Some (n, w', st)"
    by (simp add: steps_from_router)
  have mode1: "mode ?s1 = ''sql''" using m by (simp add: router_frame initial_fields)
  then have "route_after_router ?s1 = Planner" by (simp add: route_after_router_def)
  with mode1 have "mode ?s1 = ''sql'' \<and> retrieved_chunks ?s1 = []
     \<and> route_after_router ?s1 \<in> {Planner, Nl2sql, Executor, Synthesizer, Validate, END}"
    by (simp add: router_frame initial_fields)
  from steps_sql [OF this r] show ?thesis by auto
qed

text \<open>
  C7: in a run that the router classifies as \<open>rag\<close>, no position of the run, after any
  number of node invocations and so also on the repair branch, is at query generation
  or execution, and the query is still the empty string; in a run classified as \<open>sql\<close>
  no position is at retrieval and the retrieved passages are still empty.
\<close>

theorem mode_skips_states:
  "(fst (Router_forward env w q) = ''rag''
      \<and> steps env k Router w (initial_state env i q fh) = Some (n, w', st)
     \<longrightarrow> n \<notin> {Nl2sql, Executor} \<and> sql st = [])
   \<and> (fst (Router_forward env w q) = ''sql''
      \<and> steps env k Router w (initial_state env i q fh) = Some (n, w', st)
     \<longrightarrow> n \<noteq> Retriever \<and> retrieved_chunks st = [])"
proof (intro conjI impI)
  assume h: "fst (Router_forward env w q) = ''rag''
      \<and> steps env k Router w (initial_state env i q fh) = Some (n, w', st)"
  from h have r: "n \<notin> {Nl2sql, Executor} \<and> sql st = []"
    by (elim conjE) (rule rag_run)
  from r show "n \<notin> {Nl2sql, Executor}" by (rule conjunct1)
  from r show "sql st = []" by (rule conjunct2)
next
  assume h: "fst (Router_forward env w q) = ''sql''
      \<and> steps env k Router w (initial_state env i q fh) = Some (n, w', st)"
  from h have r: "n \<noteq> Retriever \<and> retrieved_chunks st = []"
    by (elim conjE) (rule sql_run)
  from r show "n \<noteq> Retriever" by (rule conjunct1)
  from r show "retrieved_chunks st = []" by (rule conjunct2)
qed

lemma toy_initial: "initial_state (toy_env m gen cit conf) i q fh = initial_state env_sql i q fh"
  by (simp add: initial_state_def env_sql_def toy_sel)

lemma toy_router:
  "m \<in> {''rag'', ''sql'', ''hybrid''} \<Longrightarrow> Router_forward (toy_env m gen cit conf) w q = (m, Suc w)"
  by (auto simp: Router_forward_def toy_sel valid_modes_def py_strip_def char_eval)

lemma router_rag: "router_node env_rag 0 st_q1 = (Suc 0, st_rag_routed)"
  by (simp add: router_node_def env_rag_def toy_router st_rag_routed_def st_q1_def initial_state_def)

lemma router_sql: "router_node env_sql 0 st_q1 = (Suc 0, st_sql_routed)"
  by (simp add: router_node_def env_sql_def toy_router st_sql_routed_def st_q1_def
      initial_state_def toy_sel)

lemma retriever_rag: "retriever_node env_rag (Suc 0) st_rag_routed = (Suc 0, st_rag_retrieved)"
  by (simp add: retriever_node_def env_rag_def toy_sel st_rag_retrieved_def st_rag_routed_def
      st_q1_def initial_state_def toy_docs_def calendar_chunk_def kpi_chunk_def)

lemma planner_sql: "planner_node env_sql (Suc 0) st_sql_routed = (Suc 0, st_sql_planned)"
  by (simp add: planner_node_def extract_constraints_def st_sql_planned_def st_sql_routed_def
      st_q1_def initial_state_def Let_def)

lemma routed_modes: "mode st_rag_routed = ''rag''" "mode st_sql_routed = ''sql''"
  "mode st_sql_planned = ''sql''"
  by (simp_all add: st_rag_routed_def st_sql_routed_def st_sql_planned_def)

lemma step_router_rag: "step env_rag Router 0 st_q1 = Inr (Retriever, Suc 0, st_rag_routed)"
  by (simp add: step_simps router_rag route_after_router_def routed_modes)

lemma step_retriever_rag: "step env_rag Retriever (Suc 0) st_rag_routed = Inr (Planner, Suc 0, st_rag_retrieved)"
  by (simp add: step_simps retriever_rag)

lemma step_router_sql: "step env_sql Router 0 st_q1 = Inr (Planner, Suc 0, st_sql_routed)"
  by (simp add: step_simps router_sql route_after_router_def routed_modes)

lemma step_planner_sql: "step env_sql Planner (Suc 0) st_sql_routed = Inr (Nl2sql, Suc 0, st_sql_planned)"
  by (simp add: step_simps planner_sql route_after_planner_def routed_modes)

lemma steps_rag_two: "steps env_rag 2 Router 0 st_q1 = Some (Planner, Suc 0, st_rag_retrieved)"
proof -
  have "steps env_rag (Suc (Suc 0)) Router 0 st_q1 = Some (Planner, Suc 0, st_rag_retrieved)"
    using step_router_rag step_retriever_rag by simp
  then show ?thesis by (simp only: numeral_2_eq_2)
qed

lemma steps_sql_two: "steps env_sql 2 Router 0 st_q1 = Some (Nl2sql, Suc 0, st_sql_planned)"
proof -
  have "steps env_sql (Suc (Suc 0)) Router 0 st_q1 = Some (Nl2sql, Suc 0, st_sql_planned)"
    using step_router_sql step_planner_sql by simp
  then show ?thesis by (simp only: numeral_2_eq_2)
qed

lemma witness_fields: "sql st_rag_retrieved = []" "retrieved_chunks st_sql_planned = []"
  by (simp_all add: st_rag_retrieved_def st_rag_routed_def st_sql_planned_def st_sql_routed_def
      st_q1_def initial_state_def)

theorem mode_skips_states_witness:
  "Planner \<notin> {Nl2sql, Executor} \<and> sql st_rag_retrieved = []
   \<and> Nl2sql \<noteq> Retriever \<and> retrieved_chunks st_sql_planned = []"
proof -
  have a: "fst (Router_forward env_rag 0 ''Total units?'') = ''rag''
      \<and> steps env_rag 2 Router 0 (initial_state env_rag ''q1'' ''Total units?'' ''number'')
          = Some (Planner, 1, st_rag_retrieved)"
  proof -
    have "Router_forward env_rag 0 ''Total units?'' = (''rag'', 1)"
      by (simp add: env_rag_def toy_router)
    moreover have "initial_state env_rag ''q1'' ''Total units?'' ''number'' = st_q1"
      by (simp add: env_rag_def toy_initial st_q1_def)
    ultimately show ?thesis using steps_rag_two by simp
  qed
  have b: "fst (Router_forward env_sql 0 ''Total units?'') = ''sql''
      \<and> steps env_sql 2 Router 0 (initial_state env_sql ''q1'' ''Total units?'' ''number'')
          = Some (Nl2sql, 1, st_sql_planned)"
  proof -
    have "Router_forward env_sql 0 ''Total units?'' = (''sql'', 1)"
      by (simp add: env_sql_def toy_router)
    moreover have "initial_state env_sql ''q1'' ''Total units?'' ''number'' = st_q1"
      by (simp add: st_q1_def)
    ultimately show ?thesis using steps_sql_two by simp
  qed
  from mode_skips_states [THEN conjunct1, THEN mp, OF a]
       mode_skips_states [THEN conjunct2, THEN mp, OF b]
  show ?thesis by simp
qed

section \<open>Routing after validation\<close>














end
